theory Spec2Isabelle
  imports Complex_Main "HOL-Library.Char_ord" "HOL-Library.List_Lexorder" "HOL-Library.Sublist"
begin

section \<open>Python values supplied by the model\<close>

text \<open>
  The arguments of a capability invocation arrive as a JSON object; the data-access
  operations of \<^verbatim>\<open>rag_agent.py\<close> only test them for truthiness, format them into
  text (\<^verbatim>\<open>f"%{query}%"\<close>, \<^verbatim>\<open>f"LIMIT {limit}"\<close>) and hand them to the driver as
  query parameters. JSON null, booleans, integers and strings are modelled; numbers are
  Python's unbounded integers.
\<close>

datatype jval = JNull | JBool bool | JInt int | JStr string

fun py_truthy :: "jval \<Rightarrow> bool" where
  "py_truthy JNull = False"
| "py_truthy (JBool b) = b"
| "py_truthy (JInt n) = (n \<noteq> 0)"
| "py_truthy (JStr s) = (s \<noteq> [])"

definition digit_char :: "nat \<Rightarrow> char" where
  "digit_char d = ''0123456789'' ! d"

fun digits :: "nat \<Rightarrow> string" where
  "digits n = (if n < 10 then [digit_char n] else digits (n div 10) @ [digit_char (n mod 10)])"

definition str_int :: "int \<Rightarrow> string" where
  "str_int n = (if n < 0 then CHR ''-'' # digits (nat (- n)) else digits (nat n))"

text \<open>\<^verbatim>\<open>str(v)\<close>, which is what an f-string writes for \<^verbatim>\<open>{v}\<close>.\<close>

fun py_str :: "jval \<Rightarrow> string" where
  "py_str JNull = ''None''"
| "py_str (JBool b) = (if b then ''True'' else ''False'')"
| "py_str (JInt n) = str_int n"
| "py_str (JStr s) = s"

text \<open>\<^verbatim>\<open>sep.join(parts)\<close>\<close>

fun join :: "string \<Rightarrow> string list \<Rightarrow> string" where
  "join sep [] = []"
| "join sep [x] = x"
| "join sep (x # y # ys) = x @ sep @ join sep (y # ys)"

text \<open>
  The exceptions the modelled code can raise, each with the text \<^verbatim>\<open>str(e)\<close> gives.
  \<open>ProviderError\<close> stands for any failure of the request to the model provider.
\<close>

datatype py_error =
    TypeError string
  | IndexError string
  | ZeroDivisionError string
  | ProviderError string

fun exc_str :: "py_error \<Rightarrow> string" where
  "exc_str (TypeError m) = m"
| "exc_str (IndexError m) = m"
| "exc_str (ZeroDivisionError m) = m"
| "exc_str (ProviderError m) = m"

text \<open>
  Keyword arguments: \<^verbatim>\<open>f(**tool_input)\<close>. The mapping is an association list with
  distinct keys, in the dictionary's order. A key that names no parameter of \<open>f\<close> raises
  TypeError; a parameter left out takes its default.
\<close>

definition unexpected_keyword :: "string \<Rightarrow> string list \<Rightarrow> (string \<times> jval) list \<Rightarrow> py_error option" where
  "unexpected_keyword fname names tool_input =
     (case filter (\<lambda>k. k \<notin> set names) (map fst tool_input) of
        [] \<Rightarrow> None
      | k # _ \<Rightarrow> Some (TypeError (fname @ ''() got an unexpected keyword argument '' @ [CHR 0x27] @ k @ [CHR 0x27])))"

definition kwarg :: "(string \<times> jval) list \<Rightarrow> string \<Rightarrow> jval \<Rightarrow> jval" where
  "kwarg tool_input name dflt = (case map_of tool_input name of None \<Rightarrow> dflt | Some v \<Rightarrow> v)"

section \<open>The store\<close>

text \<open>
  The four record sets the queries read. A date is a day number; money, prices and
  quantities are exact rationals (the source converts them to floating point, which is
  abstracted here). Columns are taken to hold no NULL. \<open>available\<close> is false when the
  connection or the query fails on the store's side, and \<open>date_in\<close> is the engine's
  conversion of a text parameter to a date (None: the text is no date, the query fails).
\<close>

type_synonym date = nat

record purchase =
  p_doc_date :: date
  p_doc_number :: string
  p_contractor_name :: string
  p_nomenclature_name :: string
  p_quantity :: rat
  p_price :: rat
  p_sum_total :: rat

record sale =
  s_doc_type :: string
  s_doc_date :: date
  s_doc_number :: string
  s_client_name :: string
  s_nomenclature_name :: string
  s_quantity :: rat
  s_price :: rat
  s_sum_with_vat :: rat

record nomenclature_item =
  n_name :: string
  n_article :: string
  n_code :: string
  n_type_id :: "nat option"
  n_is_folder :: bool

record client_row =
  c_name :: string
  c_inn :: string

record database =
  tbl_purchase_prices :: "purchase list"
  tbl_sales :: "sale list"
  tbl_nomenclature :: "nomenclature_item list"
  tbl_nomenclature_types :: "(nat \<times> string) list"
  tbl_clients :: "client_row list"
  available :: bool
  date_in :: "string \<Rightarrow> date option"

datatype db_error = Connection_failed | Query_failed

text \<open>The document types of the sales table: the words for sale and for correction.\<close>

definition doc_type_sale :: string where
  "doc_type_sale = [CHR 0xD0, CHR 0xA0, CHR 0xD0, CHR 0xB5, CHR 0xD0, CHR 0xB0, CHR 0xD0, CHR 0xBB,
     CHR 0xD0, CHR 0xB8, CHR 0xD0, CHR 0xB7, CHR 0xD0, CHR 0xB0, CHR 0xD1, CHR 0x86, CHR 0xD0, CHR 0xB8,
     CHR 0xD1, CHR 0x8F]"

definition doc_type_correction :: string where
  "doc_type_correction = [CHR 0xD0, CHR 0x9A, CHR 0xD0, CHR 0xBE, CHR 0xD1, CHR 0x80, CHR 0xD1, CHR 0x80,
     CHR 0xD0, CHR 0xB5, CHR 0xD0, CHR 0xBA, CHR 0xD1, CHR 0x82, CHR 0xD0, CHR 0xB8, CHR 0xD1, CHR 0x80,
     CHR 0xD0, CHR 0xBE, CHR 0xD0, CHR 0xB2, CHR 0xD0, CHR 0xBA, CHR 0xD0, CHR 0xB0]"

subsection \<open>Pattern matching: ILIKE\<close>

text \<open>
  \<open>like p s\<close>: the text \<open>s\<close> matches the LIKE pattern \<open>p\<close>, where \<open>%\<close> stands for any
  run of characters, \<open>_\<close> for any one character and a backslash makes the next pattern
  character literal. (The engine rejects a pattern that ends in a lone backslash; the
  patterns built here end in \<open>%\<close>, so that branch only makes the function total.)
  ILIKE compares without regard to case; case folding is modelled on the ASCII letters.
\<close>

fun like :: "string \<Rightarrow> string \<Rightarrow> bool" where
  "like [] s = (s = [])"
| "like (p # ps) s =
     (if p = CHR ''%'' then
        (like ps s \<or> (case s of [] \<Rightarrow> False | c # t \<Rightarrow> like (p # ps) t))
      else if p = CHR ''_'' then
        (case s of [] \<Rightarrow> False | c # t \<Rightarrow> like ps t)
      else if p = CHR 0x5C then
        (case ps of
           [] \<Rightarrow> False
         | q # qs \<Rightarrow> (case s of [] \<Rightarrow> False | c # t \<Rightarrow> c = q \<and> like qs t))
      else (case s of [] \<Rightarrow> False | c # t \<Rightarrow> c = p \<and> like ps t))"

definition lower_char :: "char \<Rightarrow> char" where
  "lower_char c =
     (case map_of (zip ''ABCDEFGHIJKLMNOPQRSTUVWXYZ'' ''abcdefghijklmnopqrstuvwxyz'') c of
        Some l \<Rightarrow> l
      | None \<Rightarrow> c)"

definition ilike :: "string \<Rightarrow> string \<Rightarrow> bool" where
  "ilike p s = like (map lower_char p) (map lower_char s)"

subsection \<open>WHERE clauses\<close>

text \<open>
  The operations build their WHERE clause as a list of condition texts joined by
  \<^verbatim>\<open>' AND '\<close>, and a list of parameters for the \<^verbatim>\<open>%s\<close> placeholders. A condition is
  kept here as a term whose text (\<open>cond_text\<close>) is the string the source appends, so
  that the store can give it a meaning (\<open>bind_cond\<close>).
\<close>

datatype cond =
    Always_true
  | Ilike_either string string
  | Ilike string
  | Eq_param string
  | Ge_param string
  | Le_param string
  | Eq_text string string
  | Eq_false string

fun cond_text :: "cond \<Rightarrow> string" where
  "cond_text Always_true = ''1=1''"
| "cond_text (Ilike_either a b) = ''('' @ a @ '' ILIKE %s OR '' @ b @ '' ILIKE %s)''"
| "cond_text (Ilike a) = a @ '' ILIKE %s''"
| "cond_text (Eq_param a) = a @ '' = %s''"
| "cond_text (Ge_param a) = a @ '' >= %s''"
| "cond_text (Le_param a) = a @ '' <= %s''"
| "cond_text (Eq_text a v) = a @ '' = '' @ [CHR 0x27] @ v @ [CHR 0x27]"
| "cond_text (Eq_false a) = a @ '' = false''"

definition where_text :: "cond list \<Rightarrow> string" where
  "where_text conditions = join '' AND '' (map cond_text conditions)"

text \<open>The columns of a record set a condition may name, by type.\<close>

record 'r columns =
  text_column :: "string \<Rightarrow> ('r \<Rightarrow> string) option"
  date_column :: "string \<Rightarrow> ('r \<Rightarrow> date) option"
  bool_column :: "string \<Rightarrow> ('r \<Rightarrow> bool) option"

definition purchase_columns :: "purchase columns" where
  "purchase_columns =
     \<lparr>text_column = map_of [(''doc_number'', p_doc_number), (''contractor_name'', p_contractor_name),
        (''nomenclature_name'', p_nomenclature_name)],
      date_column = map_of [(''doc_date'', p_doc_date)],
      bool_column = Map.empty\<rparr>"

definition sale_columns :: "sale columns" where
  "sale_columns =
     \<lparr>text_column = map_of [(''doc_type'', s_doc_type), (''doc_number'', s_doc_number),
        (''client_name'', s_client_name), (''nomenclature_name'', s_nomenclature_name)],
      date_column = map_of [(''doc_date'', s_doc_date)],
      bool_column = Map.empty\<rparr>"

definition nomenclature_columns :: "(nomenclature_item \<times> string option) columns" where
  "nomenclature_columns =
     \<lparr>text_column = map_of [(''n.name'', \<lambda>r. n_name (fst r)), (''n.article'', \<lambda>r. n_article (fst r)),
        (''n.code'', \<lambda>r. n_code (fst r))],
      date_column = Map.empty,
      bool_column = map_of [(''n.is_folder'', \<lambda>r. n_is_folder (fst r))]\<rparr>"

definition client_columns :: "client_row columns" where
  "client_columns =
     \<lparr>text_column = map_of [(''name'', c_name), (''inn'', c_inn)],
      date_column = Map.empty,
      bool_column = Map.empty\<rparr>"

text \<open>
  Binding one condition to the parameters still unread: the predicate on rows and the
  parameters left, or a failure (an unknown column, a parameter missing or of a type the comparison
  does not take, a text that is no date).
\<close>

fun bind_cond :: "'r columns \<Rightarrow> (string \<Rightarrow> date option) \<Rightarrow> cond \<Rightarrow> jval list
    \<Rightarrow> db_error + (('r \<Rightarrow> bool) \<times> jval list)" where
  "bind_cond cols din Always_true ps = Inr (\<lambda>r. True, ps)"
| "bind_cond cols din (Ilike_either a b) ps =
     (case text_column cols a of None \<Rightarrow> Inl Query_failed | Some fa \<Rightarrow>
      (case text_column cols b of None \<Rightarrow> Inl Query_failed | Some fb \<Rightarrow>
       (case ps of
          JStr x # JStr y # rest \<Rightarrow> Inr (\<lambda>r. ilike x (fa r) \<or> ilike y (fb r), rest)
        | _ \<Rightarrow> Inl Query_failed)))"
| "bind_cond cols din (Ilike a) ps =
     (case text_column cols a of None \<Rightarrow> Inl Query_failed | Some fa \<Rightarrow>
      (case ps of JStr x # rest \<Rightarrow> Inr (\<lambda>r. ilike x (fa r), rest) | _ \<Rightarrow> Inl Query_failed))"
| "bind_cond cols din (Eq_param a) ps =
     (case text_column cols a of None \<Rightarrow> Inl Query_failed | Some fa \<Rightarrow>
      (case ps of JStr x # rest \<Rightarrow> Inr (\<lambda>r. fa r = x, rest) | _ \<Rightarrow> Inl Query_failed))"
| "bind_cond cols din (Ge_param a) ps =
     (case date_column cols a of None \<Rightarrow> Inl Query_failed | Some fa \<Rightarrow>
      (case ps of
         JStr x # rest \<Rightarrow>
           (case din x of None \<Rightarrow> Inl Query_failed | Some d \<Rightarrow> Inr (\<lambda>r. d \<le> fa r, rest))
       | _ \<Rightarrow> Inl Query_failed))"
| "bind_cond cols din (Le_param a) ps =
     (case date_column cols a of None \<Rightarrow> Inl Query_failed | Some fa \<Rightarrow>
      (case ps of
         JStr x # rest \<Rightarrow>
           (case din x of None \<Rightarrow> Inl Query_failed | Some d \<Rightarrow> Inr (\<lambda>r. fa r \<le> d, rest))
       | _ \<Rightarrow> Inl Query_failed))"
| "bind_cond cols din (Eq_text a v) ps =
     (case text_column cols a of None \<Rightarrow> Inl Query_failed | Some fa \<Rightarrow> Inr (\<lambda>r. fa r = v, ps))"
| "bind_cond cols din (Eq_false a) ps =
     (case bool_column cols a of None \<Rightarrow> Inl Query_failed | Some fa \<Rightarrow> Inr (\<lambda>r. \<not> fa r, ps))"

text \<open>The conjunction of the conditions; every parameter must be used.\<close>

fun bind_where :: "'r columns \<Rightarrow> (string \<Rightarrow> date option) \<Rightarrow> cond list \<Rightarrow> jval list
    \<Rightarrow> db_error + ('r \<Rightarrow> bool)" where
  "bind_where cols din [] ps = (if ps = [] then Inr (\<lambda>r. True) else Inl Query_failed)"
| "bind_where cols din (c # cs) ps =
     (case bind_cond cols din c ps of
        Inl e \<Rightarrow> Inl e
      | Inr (p, rest) \<Rightarrow>
          (case bind_where cols din cs rest of
             Inl e \<Rightarrow> Inl e
           | Inr q \<Rightarrow> Inr (\<lambda>r. p r \<and> q r)))"

definition where_clause :: "database \<Rightarrow> 'r columns \<Rightarrow> cond list \<Rightarrow> jval list \<Rightarrow> db_error + ('r \<Rightarrow> bool)" where
  "where_clause db cols conditions params =
     (if available db then bind_where cols (date_in db) conditions params else Inl Connection_failed)"

subsection \<open>LIMIT and ORDER BY\<close>

text \<open>
  The text after \<^verbatim>\<open>LIMIT\<close> is read as a row count when it is a run of decimal digits;
  any other text (a negative number, \<^verbatim>\<open>None\<close>, \<^verbatim>\<open>True\<close>) makes the query fail.
  Rows with equal sort keys come in an order the engine chooses; the model sorts stably.
  Texts are ordered as lists of characters (the engine's collation is not modelled).
\<close>

definition digit_val :: "char \<Rightarrow> nat option" where
  "digit_val c = map_of (zip ''0123456789'' [0, 1, 2, 3, 4, 5, 6, 7, 8, 9]) c"

fun parse_digits :: "nat \<Rightarrow> string \<Rightarrow> nat option" where
  "parse_digits acc [] = Some acc"
| "parse_digits acc (c # cs) =
     (case digit_val c of None \<Rightarrow> None | Some d \<Rightarrow> parse_digits (10 * acc + d) cs)"

definition parse_limit :: "string \<Rightarrow> nat option" where
  "parse_limit s = (if s = [] then None else parse_digits 0 s)"

definition order_asc :: "('r \<Rightarrow> 'k::linorder) \<Rightarrow> 'r list \<Rightarrow> 'r list" where
  "order_asc key rows = sort_key key rows"

definition order_desc :: "('r \<Rightarrow> 'k::linorder) \<Rightarrow> 'r list \<Rightarrow> 'r list" where
  "order_desc key rows = rev (sort_key key rows)"

subsection \<open>Queries\<close>

text \<open>
  A query is the SQL text the operation builds, together with what the store answers
  to it: the rows, or a failure. \<open>execute_query\<close> is the source's function of that
  name: a failure is caught, a note of it is recorded (the second component, which the
  source shows on the page with \<^verbatim>\<open>st.error\<close>) and an empty frame is returned.
\<close>

record 'r query =
  sql_text :: string
  run :: "database \<Rightarrow> jval list \<Rightarrow> db_error + 'r list"

definition execute_query :: "database \<Rightarrow> 'r query \<Rightarrow> jval list \<Rightarrow> 'r list \<times> db_error list" where
  "execute_query db q params =
     (case run q db params of
        Inr df \<Rightarrow> (df, [])
      | Inl e \<Rightarrow> ([], [e]))"

text \<open>The rows a WHERE clause selects from a record set, ordered and cut by a LIMIT text.\<close>

definition select_rows :: "database \<Rightarrow> 'r columns \<Rightarrow> cond list \<Rightarrow> jval list \<Rightarrow> 'r list \<Rightarrow> db_error + 'r list" where
  "select_rows db cols conditions params rows =
     (case where_clause db cols conditions params of
        Inl e \<Rightarrow> Inl e
      | Inr matches \<Rightarrow> Inr (filter matches rows))"

definition limit_rows :: "string \<Rightarrow> (db_error + 'r list) \<Rightarrow> db_error + 'r list" where
  "limit_rows limit_text res =
     (case res of
        Inl e \<Rightarrow> Inl e
      | Inr rows \<Rightarrow> (case parse_limit limit_text of None \<Rightarrow> Inl Query_failed | Some n \<Rightarrow> Inr (take n rows)))"

definition map_rows :: "('r list \<Rightarrow> 'a list) \<Rightarrow> (db_error + 'r list) \<Rightarrow> db_error + 'a list" where
  "map_rows f res = (case res of Inl e \<Rightarrow> Inl e | Inr rows \<Rightarrow> Inr (f rows))"

text \<open>\<^verbatim>\<open>MIN(col)\<close> and \<^verbatim>\<open>MAX(col)\<close>: NULL over no rows.\<close>

definition sql_min :: "date list \<Rightarrow> date option" where
  "sql_min ds = (if ds = [] then None else Some (Min (set ds)))"

definition sql_max :: "date list \<Rightarrow> date option" where
  "sql_max ds = (if ds = [] then None else Some (Max (set ds)))"

subsubsection \<open>search_purchases\<close>

definition purchases_query :: "cond list \<Rightarrow> jval \<Rightarrow> purchase query" where
  "purchases_query conditions limit =
     \<lparr>sql_text = concat
        [''\<newline>'',
         ''        SELECT doc_date, doc_number, contractor_name, nomenclature_name,\<newline>'',
         ''               quantity, price, sum_total\<newline>'',
         ''        FROM purchase_prices\<newline>'',
         ''        WHERE '', where_text conditions, ''\<newline>'',
         ''        ORDER BY doc_date DESC\<newline>'',
         ''        LIMIT '', py_str limit, ''\<newline>'',
         ''    ''],
      run = (\<lambda>db params. limit_rows (py_str limit)
               (map_rows (order_desc p_doc_date)
                  (select_rows db purchase_columns conditions params (tbl_purchase_prices db))))\<rparr>"

record purchase_stats =
  ps_total_records :: nat
  ps_suppliers :: nat
  ps_products :: nat
  ps_total_sum :: rat
  ps_min_date :: "date option"
  ps_max_date :: "date option"

definition purchases_stats_query :: "cond list \<Rightarrow> purchase_stats query" where
  "purchases_stats_query conditions =
     \<lparr>sql_text = concat
        [''\<newline>'',
         ''        SELECT \<newline>'',
         ''            COUNT(*) as total_records,\<newline>'',
         ''            COUNT(DISTINCT contractor_name) as suppliers,\<newline>'',
         ''            COUNT(DISTINCT nomenclature_name) as products,\<newline>'',
         ''            COALESCE(SUM(sum_total), 0) as total_sum,\<newline>'',
         ''            MIN(doc_date) as min_date,\<newline>'',
         ''            MAX(doc_date) as max_date\<newline>'',
         ''        FROM purchase_prices\<newline>'',
         ''        WHERE '', where_text conditions, ''\<newline>'',
         ''    ''],
      run = (\<lambda>db params. map_rows
               (\<lambda>rows. [\<lparr>ps_total_records = length rows,
                           ps_suppliers = length (remdups (map p_contractor_name rows)),
                           ps_products = length (remdups (map p_nomenclature_name rows)),
                           ps_total_sum = sum_list (map p_sum_total rows),
                           ps_min_date = sql_min (map p_doc_date rows),
                           ps_max_date = sql_max (map p_doc_date rows)\<rparr>])
               (select_rows db purchase_columns conditions params (tbl_purchase_prices db)))\<rparr>"

subsubsection \<open>search_sales\<close>

definition sales_query :: "cond list \<Rightarrow> jval \<Rightarrow> sale query" where
  "sales_query conditions limit =
     \<lparr>sql_text = concat
        [''\<newline>'',
         ''        SELECT doc_type, doc_date, doc_number, client_name, \<newline>'',
         ''               nomenclature_name, quantity, price, sum_with_vat\<newline>'',
         ''        FROM sales\<newline>'',
         ''        WHERE '', where_text conditions, ''\<newline>'',
         ''        ORDER BY doc_date DESC\<newline>'',
         ''        LIMIT '', py_str limit, ''\<newline>'',
         ''    ''],
      run = (\<lambda>db params. limit_rows (py_str limit)
               (map_rows (order_desc s_doc_date)
                  (select_rows db sale_columns conditions params (tbl_sales db))))\<rparr>"

record sales_stats =
  ss_total_records :: nat
  ss_clients :: nat
  ss_sales_sum :: rat
  ss_corrections_sum :: rat

definition sales_stats_query :: "cond list \<Rightarrow> sales_stats query" where
  "sales_stats_query conditions =
     \<lparr>sql_text = concat
        [''\<newline>'',
         ''        SELECT \<newline>'',
         ''            COUNT(*) as total_records,\<newline>'',
         ''            COUNT(DISTINCT client_name) as clients,\<newline>'',
         ''            COALESCE(SUM(CASE WHEN doc_type = '', [CHR 0x27], doc_type_sale, [CHR 0x27],
           '' THEN sum_with_vat ELSE 0 END), 0) as sales_sum,\<newline>'',
         ''            COALESCE(SUM(CASE WHEN doc_type = '', [CHR 0x27], doc_type_correction, [CHR 0x27],
           '' THEN sum_with_vat ELSE 0 END), 0) as corrections_sum\<newline>'',
         ''        FROM sales\<newline>'',
         ''        WHERE '', where_text conditions, ''\<newline>'',
         ''    ''],
      run = (\<lambda>db params. map_rows
               (\<lambda>rows. [\<lparr>ss_total_records = length rows,
                           ss_clients = length (remdups (map s_client_name rows)),
                           ss_sales_sum = sum_list (map (\<lambda>r. if s_doc_type r = doc_type_sale then s_sum_with_vat r else 0) rows),
                           ss_corrections_sum = sum_list (map (\<lambda>r. if s_doc_type r = doc_type_correction then s_sum_with_vat r else 0) rows)\<rparr>])
               (select_rows db sale_columns conditions params (tbl_sales db)))\<rparr>"

subsubsection \<open>search_nomenclature and search_clients\<close>

text \<open>
  \<^verbatim>\<open>nomenclature n LEFT JOIN nomenclature_types nt ON n.type_id = nt.id\<close>: every item,
  once per type with its identifier, or once with no type name when there is none.
\<close>

definition left_join_types :: "database \<Rightarrow> (nomenclature_item \<times> string option) list" where
  "left_join_types db =
     concat (map (\<lambda>n.
        (case filter (\<lambda>t. Some (fst t) = n_type_id n) (tbl_nomenclature_types db) of
           [] \<Rightarrow> [(n, None)]
         | ts \<Rightarrow> map (\<lambda>t. (n, Some (snd t))) ts))
       (tbl_nomenclature db))"

record nomenclature_row =
  nr_name :: string
  nr_article :: string
  nr_code :: string
  nr_type_name :: "string option"

definition nomenclature_query :: "cond list \<Rightarrow> jval \<Rightarrow> nomenclature_row query" where
  "nomenclature_query conditions limit =
     \<lparr>sql_text = concat
        [''\<newline>'',
         ''        SELECT n.name, n.article, n.code, nt.name as type_name\<newline>'',
         ''        FROM nomenclature n\<newline>'',
         ''        LEFT JOIN nomenclature_types nt ON n.type_id = nt.id\<newline>'',
         ''        WHERE '', where_text conditions, ''\<newline>'',
         ''        ORDER BY n.name\<newline>'',
         ''        LIMIT '', py_str limit, ''\<newline>'',
         ''    ''],
      run = (\<lambda>db params. limit_rows (py_str limit)
               (map_rows (\<lambda>rows. map (\<lambda>r. \<lparr>nr_name = n_name (fst r), nr_article = n_article (fst r),
                                               nr_code = n_code (fst r), nr_type_name = snd r\<rparr>)
                                     (order_asc (\<lambda>r. n_name (fst r)) rows))
                  (select_rows db nomenclature_columns conditions params (left_join_types db))))\<rparr>"

definition clients_query :: "cond list \<Rightarrow> jval \<Rightarrow> client_row query" where
  "clients_query conditions limit =
     \<lparr>sql_text = concat
        [''\<newline>'',
         ''        SELECT name, inn\<newline>'',
         ''        FROM clients\<newline>'',
         ''        WHERE '', where_text conditions, ''\<newline>'',
         ''        ORDER BY name\<newline>'',
         ''        LIMIT '', py_str limit, ''\<newline>'',
         ''    ''],
      run = (\<lambda>db params. limit_rows (py_str limit)
               (map_rows (order_asc c_name)
                  (select_rows db client_columns conditions params (tbl_clients db))))\<rparr>"

subsubsection \<open>get_price_dynamics\<close>

record price_point =
  pp_doc_date :: date
  pp_contractor_name :: string
  pp_price :: rat
  pp_quantity :: rat

definition price_query :: "price_point query" where
  "price_query =
     \<lparr>sql_text = concat
        [''\<newline>'',
         ''        SELECT doc_date, contractor_name, price, quantity\<newline>'',
         ''        FROM purchase_prices\<newline>'',
         ''        WHERE nomenclature_name ILIKE %s\<newline>'',
         ''        ORDER BY doc_date\<newline>'',
         ''    ''],
      run = (\<lambda>db params.
               map_rows (\<lambda>rows. map (\<lambda>r. \<lparr>pp_doc_date = p_doc_date r, pp_contractor_name = p_contractor_name r,
                                              pp_price = p_price r, pp_quantity = p_quantity r\<rparr>)
                                    (order_asc p_doc_date rows))
                 (select_rows db purchase_columns [Ilike ''nomenclature_name''] params (tbl_purchase_prices db)))\<rparr>"

subsubsection \<open>get_top_clients and get_top_products\<close>

record top_client =
  tc_client_name :: string
  tc_total_sum :: rat
  tc_orders_count :: nat

definition group_clients :: "sale list \<Rightarrow> top_client list" where
  "group_clients rows =
     map (\<lambda>g. \<lparr>tc_client_name = g,
               tc_total_sum = sum_list (map s_sum_with_vat (filter (\<lambda>r. s_client_name r = g) rows)),
               tc_orders_count = length (remdups (map s_doc_number (filter (\<lambda>r. s_client_name r = g) rows)))\<rparr>)
         (remdups (map s_client_name rows))"

definition top_clients_query :: "cond list \<Rightarrow> jval \<Rightarrow> top_client query" where
  "top_clients_query conditions limit =
     \<lparr>sql_text = concat
        [''\<newline>'',
         ''        SELECT client_name, \<newline>'',
         ''               SUM(sum_with_vat) as total_sum,\<newline>'',
         ''               COUNT(DISTINCT doc_number) as orders_count\<newline>'',
         ''        FROM sales\<newline>'',
         ''        WHERE '', where_text conditions, ''\<newline>'',
         ''        GROUP BY client_name\<newline>'',
         ''        ORDER BY total_sum DESC\<newline>'',
         ''        LIMIT '', py_str limit, ''\<newline>'',
         ''    ''],
      run = (\<lambda>db params. limit_rows (py_str limit)
               (map_rows (\<lambda>rows. order_desc tc_total_sum (group_clients rows))
                  (select_rows db sale_columns conditions params (tbl_sales db))))\<rparr>"

record top_product =
  tp_nomenclature_name :: string
  tp_total_qty :: rat
  tp_total_sum :: rat

definition group_products :: "sale list \<Rightarrow> top_product list" where
  "group_products rows =
     map (\<lambda>g. \<lparr>tp_nomenclature_name = g,
               tp_total_qty = sum_list (map s_quantity (filter (\<lambda>r. s_nomenclature_name r = g) rows)),
               tp_total_sum = sum_list (map s_sum_with_vat (filter (\<lambda>r. s_nomenclature_name r = g) rows))\<rparr>)
         (remdups (map s_nomenclature_name rows))"

definition top_products_query :: "cond list \<Rightarrow> jval \<Rightarrow> top_product query" where
  "top_products_query conditions limit =
     \<lparr>sql_text = concat
        [''\<newline>'',
         ''        SELECT nomenclature_name,\<newline>'',
         ''               SUM(quantity) as total_qty,\<newline>'',
         ''               SUM(sum_with_vat) as total_sum\<newline>'',
         ''        FROM sales\<newline>'',
         ''        WHERE '', where_text conditions, ''\<newline>'',
         ''        GROUP BY nomenclature_name\<newline>'',
         ''        ORDER BY total_sum DESC\<newline>'',
         ''        LIMIT '', py_str limit, ''\<newline>'',
         ''    ''],
      run = (\<lambda>db params. limit_rows (py_str limit)
               (map_rows (\<lambda>rows. order_desc tp_total_sum (group_products rows))
                  (select_rows db sale_columns conditions params (tbl_sales db))))\<rparr>"

subsubsection \<open>get_summary_stats\<close>

record purchases_summary =
  sp_cnt :: nat
  sp_total :: rat
  sp_min_date :: "date option"
  sp_max_date :: "date option"

definition summary_purchases_query :: "purchases_summary query" where
  "summary_purchases_query =
     \<lparr>sql_text = concat
        [''\<newline>'',
         ''        SELECT COUNT(*) as cnt, COALESCE(SUM(sum_total), 0) as total,\<newline>'',
         ''               MIN(doc_date) as min_date, MAX(doc_date) as max_date\<newline>'',
         ''        FROM purchase_prices\<newline>'',
         ''    ''],
      run = (\<lambda>db params. map_rows
               (\<lambda>rows. [\<lparr>sp_cnt = length rows, sp_total = sum_list (map p_sum_total rows),
                           sp_min_date = sql_min (map p_doc_date rows),
                           sp_max_date = sql_max (map p_doc_date rows)\<rparr>])
               (select_rows db purchase_columns [] params (tbl_purchase_prices db)))\<rparr>"

record sales_summary =
  sl_cnt :: nat
  sl_sales_total :: rat
  sl_corr_total :: rat
  sl_min_date :: "date option"
  sl_max_date :: "date option"

definition summary_sales_query :: "sales_summary query" where
  "summary_sales_query =
     \<lparr>sql_text = concat
        [''\<newline>'',
         ''        SELECT COUNT(*) as cnt, \<newline>'',
         ''               COALESCE(SUM(CASE WHEN doc_type='', [CHR 0x27], doc_type_sale, [CHR 0x27],
           '' THEN sum_with_vat ELSE 0 END), 0) as sales_total,\<newline>'',
         ''               COALESCE(SUM(CASE WHEN doc_type='', [CHR 0x27], doc_type_correction, [CHR 0x27],
           '' THEN sum_with_vat ELSE 0 END), 0) as corr_total,\<newline>'',
         ''               MIN(doc_date) as min_date, MAX(doc_date) as max_date\<newline>'',
         ''        FROM sales\<newline>'',
         ''    ''],
      run = (\<lambda>db params. map_rows
               (\<lambda>rows. [\<lparr>sl_cnt = length rows,
                           sl_sales_total = sum_list (map (\<lambda>r. if s_doc_type r = doc_type_sale then s_sum_with_vat r else 0) rows),
                           sl_corr_total = sum_list (map (\<lambda>r. if s_doc_type r = doc_type_correction then s_sum_with_vat r else 0) rows),
                           sl_min_date = sql_min (map s_doc_date rows),
                           sl_max_date = sql_max (map s_doc_date rows)\<rparr>])
               (select_rows db sale_columns [] params (tbl_sales db)))\<rparr>"

definition nomenclature_count_query :: "nat query" where
  "nomenclature_count_query =
     \<lparr>sql_text = ''SELECT COUNT(*) as cnt FROM nomenclature WHERE is_folder = false'',
      run = (\<lambda>db params. map_rows (\<lambda>rows. [length rows])
               (select_rows db nomenclature_columns [Eq_false ''n.is_folder''] params
                  (map (\<lambda>n. (n, None)) (tbl_nomenclature db))))\<rparr>"

definition clients_count_query :: "nat query" where
  "clients_count_query =
     \<lparr>sql_text = ''SELECT COUNT(*) as cnt FROM clients'',
      run = (\<lambda>db params. map_rows (\<lambda>rows. [length rows])
               (select_rows db client_columns [] params (tbl_clients db)))\<rparr>"

section \<open>The data-access operations\<close>

text \<open>
  What an operation returns: the dictionary of the source, one constructor per
  \<^verbatim>\<open>"type"\<close> tag, with the values of its other keys in the source's order. \<open>Purchases\<close>
  holds \<^verbatim>\<open>data\<close>, \<^verbatim>\<open>stats\<close> (None for the empty dictionary) and \<^verbatim>\<open>query_used\<close>;
  \<open>Nomenclature\<close> and \<open>Clients\<close> hold \<^verbatim>\<open>data\<close> and \<^verbatim>\<open>total_found\<close>;
  \<open>Price_dynamics_not_found\<close> is the dictionary with empty \<^verbatim>\<open>data\<close> and a \<^verbatim>\<open>message\<close>,
  \<open>Price_dynamics\<close> the one with \<^verbatim>\<open>nomenclature\<close>, \<^verbatim>\<open>data\<close> and \<^verbatim>\<open>stats\<close>;
  \<open>Error_payload\<close> is \<^verbatim>\<open>{"error": text}\<close>.
\<close>

record price_stats =
  min_price :: rat
  max_price :: rat
  avg_price :: rat
  first_price :: rat
  last_price :: rat
  price_change_pct :: rat

record summary =
  purchases_records :: nat
  purchases_total_sum :: rat
  purchases_period :: "date option \<times> date option"
  sales_records :: nat
  sales_sum :: rat
  corrections_sum :: rat
  sales_period :: "date option \<times> date option"
  nomenclature_count :: nat
  clients_count :: nat

datatype tool_result =
    Purchases "purchase list" "purchase_stats option" string
  | Sales "sale list" "sales_stats option"
  | Nomenclature "nomenclature_row list" nat
  | Clients "client_row list" nat
  | Price_dynamics_not_found string
  | Price_dynamics jval "price_point list" price_stats
  | Top_clients "top_client list"
  | Top_products "top_product list"
  | Summary summary
  | Error_payload string

text \<open>
  One \<^verbatim>\<open>if value: conditions.append(...); params.append(...)\<close> block of the source,
  on the pair of the two lists.
\<close>

definition add_filter :: "bool \<Rightarrow> cond \<Rightarrow> jval list \<Rightarrow> cond list \<times> jval list \<Rightarrow> cond list \<times> jval list" where
  "add_filter present c values cp = (if present then (fst cp @ [c], snd cp @ values) else cp)"

text \<open>\<^verbatim>\<open>f"%{value}%"\<close>\<close>

definition like_pattern :: "jval \<Rightarrow> jval" where
  "like_pattern v = JStr (''%'' @ py_str v @ ''%'')"

text \<open>\<^verbatim>\<open>stats_df.iloc[0].to_dict() if not stats_df.empty else {}\<close>\<close>

definition first_row_or_empty :: "'r list \<Rightarrow> 'r option" where
  "first_row_or_empty stats_df = (case stats_df of [] \<Rightarrow> None | r # _ \<Rightarrow> Some r)"

definition search_purchases :: "database \<Rightarrow> jval \<Rightarrow> jval \<Rightarrow> jval \<Rightarrow> jval \<Rightarrow> jval \<Rightarrow> tool_result" where
  "search_purchases db query supplier date_from date_to limit =
     (let cp = ([Always_true], []);
          cp = add_filter (py_truthy query) (Ilike_either ''nomenclature_name'' ''contractor_name'')
                 [like_pattern query, like_pattern query] cp;
          cp = add_filter (py_truthy supplier) (Ilike ''contractor_name'') [like_pattern supplier] cp;
          cp = add_filter (py_truthy date_from) (Ge_param ''doc_date'') [date_from] cp;
          cp = add_filter (py_truthy date_to) (Le_param ''doc_date'') [date_to] cp;
          conditions = fst cp;
          params = snd cp;
          sql = purchases_query conditions limit;
          df = fst (execute_query db sql params);
          stats_df = fst (execute_query db (purchases_stats_query conditions) params);
          stats = first_row_or_empty stats_df
      in Purchases df stats (sql_text sql))"

definition search_sales :: "database \<Rightarrow> jval \<Rightarrow> jval \<Rightarrow> jval \<Rightarrow> jval \<Rightarrow> jval \<Rightarrow> jval \<Rightarrow> tool_result" where
  "search_sales db query client doc_type date_from date_to limit =
     (let cp = ([Always_true], []);
          cp = add_filter (py_truthy query) (Ilike_either ''nomenclature_name'' ''client_name'')
                 [like_pattern query, like_pattern query] cp;
          cp = add_filter (py_truthy client) (Ilike ''client_name'') [like_pattern client] cp;
          cp = add_filter (py_truthy doc_type) (Eq_param ''doc_type'') [doc_type] cp;
          cp = add_filter (py_truthy date_from) (Ge_param ''doc_date'') [date_from] cp;
          cp = add_filter (py_truthy date_to) (Le_param ''doc_date'') [date_to] cp;
          conditions = fst cp;
          params = snd cp;
          sql = sales_query conditions limit;
          df = fst (execute_query db sql params);
          stats_df = fst (execute_query db (sales_stats_query conditions) params);
          stats = first_row_or_empty stats_df
      in Sales df stats)"

definition search_nomenclature :: "database \<Rightarrow> jval \<Rightarrow> jval \<Rightarrow> tool_result" where
  "search_nomenclature db query limit =
     (let cp = ([Eq_false ''n.is_folder''], []);
          cp = add_filter (py_truthy query) (Ilike_either ''n.name'' ''n.article'')
                 [like_pattern query, like_pattern query] cp;
          conditions = fst cp;
          params = snd cp;
          sql = nomenclature_query conditions limit;
          df = fst (execute_query db sql params)
      in Nomenclature df (length df))"

definition search_clients :: "database \<Rightarrow> jval \<Rightarrow> jval \<Rightarrow> tool_result" where
  "search_clients db query limit =
     (let cp = ([Always_true], []);
          cp = add_filter (py_truthy query) (Ilike_either ''name'' ''inn'')
                 [like_pattern query, like_pattern query] cp;
          conditions = fst cp;
          params = snd cp;
          sql = clients_query conditions limit;
          df = fst (execute_query db sql params)
      in Clients df (length df))"

text \<open>
  True division and \<^verbatim>\<open>round(x, 1)\<close>, which rounds to one decimal place, a tie going
  to the even digit. The source computes on the floating-point cells of the frame; the
  model computes on rationals, and its division ends in the error branch on a zero
  divisor, where no rational quotient exists: Python's own numbers raise
  ZeroDivisionError there, while the frame library's floating-point scalars give an
  infinity or a NaN, which the rationals cannot hold.
\<close>

definition py_truediv :: "rat \<Rightarrow> rat \<Rightarrow> py_error + rat" where
  "py_truediv a b = (if b = 0 then Inl (ZeroDivisionError ''division by zero'') else Inr (a / b))"

definition round_half_even :: "rat \<Rightarrow> int" where
  "round_half_even x =
     (let f = \<lfloor>x\<rfloor>; d = x - of_int f
      in if d < 1 / 2 then f else if 1 / 2 < d then f + 1 else if even f then f else f + 1)"

definition py_round1 :: "rat \<Rightarrow> rat" where
  "py_round1 x = of_int (round_half_even (x * 10)) / 10"

text \<open>The message of the empty result: the words for "data not found".\<close>

definition not_found_message :: string where
  "not_found_message = [CHR 0xD0, CHR 0x94, CHR 0xD0, CHR 0xB0, CHR 0xD0, CHR 0xBD, CHR 0xD0, CHR 0xBD,
     CHR 0xD1, CHR 0x8B, CHR 0xD0, CHR 0xB5, CHR 0x20, CHR 0xD0, CHR 0xBD, CHR 0xD0, CHR 0xB5, CHR 0x20,
     CHR 0xD0, CHR 0xBD, CHR 0xD0, CHR 0xB0, CHR 0xD0, CHR 0xB9, CHR 0xD0, CHR 0xB4, CHR 0xD0, CHR 0xB5,
     CHR 0xD0, CHR 0xBD, CHR 0xD1, CHR 0x8B]"

definition get_price_dynamics :: "database \<Rightarrow> jval \<Rightarrow> py_error + tool_result" where
  "get_price_dynamics db nomenclature =
     (let df = fst (execute_query db price_query [like_pattern nomenclature])
      in case df of
           [] \<Rightarrow> Inr (Price_dynamics_not_found not_found_message)
         | first # _ \<Rightarrow>
             (case py_truediv (pp_price (last df) - pp_price first) (pp_price first) of
                Inl e \<Rightarrow> Inl e
              | Inr change \<Rightarrow>
                  Inr (Price_dynamics nomenclature df
                    \<lparr>min_price = Min (set (map pp_price df)),
                     max_price = Max (set (map pp_price df)),
                     avg_price = sum_list (map pp_price df) / of_nat (length df),
                     first_price = pp_price first,
                     last_price = pp_price (last df),
                     price_change_pct = py_round1 (change * 100)\<rparr>)))"

definition get_top_clients :: "database \<Rightarrow> jval \<Rightarrow> jval \<Rightarrow> jval \<Rightarrow> tool_result" where
  "get_top_clients db date_from date_to limit =
     (let cp = ([Eq_text ''doc_type'' doc_type_sale], []);
          cp = add_filter (py_truthy date_from) (Ge_param ''doc_date'') [date_from] cp;
          cp = add_filter (py_truthy date_to) (Le_param ''doc_date'') [date_to] cp;
          conditions = fst cp;
          params = snd cp;
          sql = top_clients_query conditions limit;
          df = fst (execute_query db sql params)
      in Top_clients df)"

definition get_top_products :: "database \<Rightarrow> jval \<Rightarrow> jval \<Rightarrow> jval \<Rightarrow> tool_result" where
  "get_top_products db date_from date_to limit =
     (let cp = ([Eq_text ''doc_type'' doc_type_sale], []);
          cp = add_filter (py_truthy date_from) (Ge_param ''doc_date'') [date_from] cp;
          cp = add_filter (py_truthy date_to) (Le_param ''doc_date'') [date_to] cp;
          conditions = fst cp;
          params = snd cp;
          sql = top_products_query conditions limit;
          df = fst (execute_query db sql params)
      in Top_products df)"

text \<open>\<^verbatim>\<open>df.iloc[0]\<close>: the first row, IndexError on a frame with no rows.\<close>

definition iloc0 :: "'r list \<Rightarrow> py_error + 'r" where
  "iloc0 df =
     (case df of
        [] \<Rightarrow> Inl (IndexError ''single positional indexer is out-of-bounds'')
      | r # _ \<Rightarrow> Inr r)"

definition get_summary_stats :: "database \<Rightarrow> py_error + tool_result" where
  "get_summary_stats db =
     (let purchases = fst (execute_query db summary_purchases_query []);
          sales = fst (execute_query db summary_sales_query []);
          nom_count = fst (execute_query db nomenclature_count_query []);
          clients_count = fst (execute_query db clients_count_query [])
      in case iloc0 purchases of Inl e \<Rightarrow> Inl e | Inr p \<Rightarrow>
         (case iloc0 sales of Inl e \<Rightarrow> Inl e | Inr s \<Rightarrow>
          (case iloc0 nom_count of Inl e \<Rightarrow> Inl e | Inr n \<Rightarrow>
           (case iloc0 clients_count of Inl e \<Rightarrow> Inl e | Inr c \<Rightarrow>
              Inr (Summary
                \<lparr>purchases_records = sp_cnt p,
                 purchases_total_sum = sp_total p,
                 purchases_period = (sp_min_date p, sp_max_date p),
                 sales_records = sl_cnt s,
                 sales_sum = sl_sales_total s,
                 corrections_sum = sl_corr_total s,
                 sales_period = (sl_min_date s, sl_max_date s),
                 nomenclature_count = n,
                 clients_count = c\<rparr>)))))"

section \<open>The dispatcher\<close>

text \<open>
  \<^verbatim>\<open>operation(**tool_input)\<close> for each operation: the keywords are checked against the
  parameters of its signature, and the parameters left out take the signature's defaults.
\<close>

definition call_search_purchases :: "database \<Rightarrow> (string \<times> jval) list \<Rightarrow> py_error + tool_result" where
  "call_search_purchases db tool_input =
     (case unexpected_keyword ''search_purchases''
             [''query'', ''supplier'', ''date_from'', ''date_to'', ''limit''] tool_input of
        Some e \<Rightarrow> Inl e
      | None \<Rightarrow> Inr (search_purchases db (kwarg tool_input ''query'' JNull)
          (kwarg tool_input ''supplier'' JNull) (kwarg tool_input ''date_from'' JNull)
          (kwarg tool_input ''date_to'' JNull) (kwarg tool_input ''limit'' (JInt 20))))"

definition call_search_sales :: "database \<Rightarrow> (string \<times> jval) list \<Rightarrow> py_error + tool_result" where
  "call_search_sales db tool_input =
     (case unexpected_keyword ''search_sales''
             [''query'', ''client'', ''doc_type'', ''date_from'', ''date_to'', ''limit''] tool_input of
        Some e \<Rightarrow> Inl e
      | None \<Rightarrow> Inr (search_sales db (kwarg tool_input ''query'' JNull)
          (kwarg tool_input ''client'' JNull) (kwarg tool_input ''doc_type'' JNull)
          (kwarg tool_input ''date_from'' JNull) (kwarg tool_input ''date_to'' JNull)
          (kwarg tool_input ''limit'' (JInt 20))))"

definition call_search_nomenclature :: "database \<Rightarrow> (string \<times> jval) list \<Rightarrow> py_error + tool_result" where
  "call_search_nomenclature db tool_input =
     (case unexpected_keyword ''search_nomenclature'' [''query'', ''limit''] tool_input of
        Some e \<Rightarrow> Inl e
      | None \<Rightarrow> Inr (search_nomenclature db (kwarg tool_input ''query'' JNull)
          (kwarg tool_input ''limit'' (JInt 30))))"

definition call_search_clients :: "database \<Rightarrow> (string \<times> jval) list \<Rightarrow> py_error + tool_result" where
  "call_search_clients db tool_input =
     (case unexpected_keyword ''search_clients'' [''query'', ''limit''] tool_input of
        Some e \<Rightarrow> Inl e
      | None \<Rightarrow> Inr (search_clients db (kwarg tool_input ''query'' JNull)
          (kwarg tool_input ''limit'' (JInt 30))))"

definition call_get_price_dynamics :: "database \<Rightarrow> (string \<times> jval) list \<Rightarrow> py_error + tool_result" where
  "call_get_price_dynamics db tool_input =
     (case unexpected_keyword ''get_price_dynamics'' [''nomenclature''] tool_input of
        Some e \<Rightarrow> Inl e
      | None \<Rightarrow>
          (case map_of tool_input ''nomenclature'' of
             None \<Rightarrow> Inl (TypeError (''get_price_dynamics() missing 1 required positional argument: ''
                             @ [CHR 0x27] @ ''nomenclature'' @ [CHR 0x27]))
           | Some nomenclature \<Rightarrow> get_price_dynamics db nomenclature))"

definition call_get_top_clients :: "database \<Rightarrow> (string \<times> jval) list \<Rightarrow> py_error + tool_result" where
  "call_get_top_clients db tool_input =
     (case unexpected_keyword ''get_top_clients'' [''date_from'', ''date_to'', ''limit''] tool_input of
        Some e \<Rightarrow> Inl e
      | None \<Rightarrow> Inr (get_top_clients db (kwarg tool_input ''date_from'' JNull)
          (kwarg tool_input ''date_to'' JNull) (kwarg tool_input ''limit'' (JInt 10))))"

definition call_get_top_products :: "database \<Rightarrow> (string \<times> jval) list \<Rightarrow> py_error + tool_result" where
  "call_get_top_products db tool_input =
     (case unexpected_keyword ''get_top_products'' [''date_from'', ''date_to'', ''limit''] tool_input of
        Some e \<Rightarrow> Inl e
      | None \<Rightarrow> Inr (get_top_products db (kwarg tool_input ''date_from'' JNull)
          (kwarg tool_input ''date_to'' JNull) (kwarg tool_input ''limit'' (JInt 10))))"

text \<open>The words for "unknown tool", a colon and a space.\<close>

definition unknown_tool_prefix :: string where
  "unknown_tool_prefix = [CHR 0xD0, CHR 0x9D, CHR 0xD0, CHR 0xB5, CHR 0xD0, CHR 0xB8, CHR 0xD0, CHR 0xB7,
     CHR 0xD0, CHR 0xB2, CHR 0xD0, CHR 0xB5, CHR 0xD1, CHR 0x81, CHR 0xD1, CHR 0x82, CHR 0xD0, CHR 0xBD,
     CHR 0xD1, CHR 0x8B, CHR 0xD0, CHR 0xB9, CHR 0x20, CHR 0xD0, CHR 0xB8, CHR 0xD0, CHR 0xBD, CHR 0xD1,
     CHR 0x81, CHR 0xD1, CHR 0x82, CHR 0xD1, CHR 0x80, CHR 0xD1, CHR 0x83, CHR 0xD0, CHR 0xBC, CHR 0xD0,
     CHR 0xB5, CHR 0xD0, CHR 0xBD, CHR 0xD1, CHR 0x82, CHR 0x3A, CHR 0x20]"

text \<open>
  The body of the \<^verbatim>\<open>try\<close> block of \<open>execute_tool\<close> up to the result dictionary: the
  branch for the capability's name, or the dictionary for an unknown name.
\<close>

definition dispatch :: "database \<Rightarrow> string \<Rightarrow> (string \<times> jval) list \<Rightarrow> py_error + tool_result" where
  "dispatch db tool_name tool_input =
     (if tool_name = ''search_purchases'' then call_search_purchases db tool_input
      else if tool_name = ''search_sales'' then call_search_sales db tool_input
      else if tool_name = ''search_nomenclature'' then call_search_nomenclature db tool_input
      else if tool_name = ''search_clients'' then call_search_clients db tool_input
      else if tool_name = ''get_price_dynamics'' then call_get_price_dynamics db tool_input
      else if tool_name = ''get_top_clients'' then call_get_top_clients db tool_input
      else if tool_name = ''get_top_products'' then call_get_top_products db tool_input
      else if tool_name = ''get_summary_stats'' then get_summary_stats db
      else Inr (Error_payload (unknown_tool_prefix @ tool_name)))"

text \<open>
  \<open>execute_tool\<close>. \<open>dumps\<close> is \<^verbatim>\<open>json.dumps(_, ensure_ascii=False, default=str)\<close> on
  the dictionaries above, which hold texts, numbers, dates and nulls only and so always
  serialize; the serializer itself is a parameter of the model.
\<close>

definition execute_tool :: "(tool_result \<Rightarrow> string) \<Rightarrow> database \<Rightarrow> string \<Rightarrow> (string \<times> jval) list \<Rightarrow> string" where
  "execute_tool dumps db tool_name tool_input =
     (case dispatch db tool_name tool_input of
        Inr result \<Rightarrow> dumps result
      | Inl e \<Rightarrow> dumps (Error_payload (exc_str e)))"

definition TOOLS :: "string list" where
  "TOOLS = [''search_purchases'', ''search_sales'', ''search_nomenclature'', ''search_clients'',
     ''get_price_dynamics'', ''get_top_clients'', ''get_top_products'', ''get_summary_stats'']"

section \<open>The orchestrator\<close>

text \<open>
  A response of the model holds a stop reason and content blocks; a block is text, a
  tool-use request (identifier, capability name, arguments) or something else without
  text. A message of the transcript has a role and, as content, plain text, the blocks
  of a response, or a list of tool results (identifier of the request, result text).
\<close>

datatype block =
    Text_block string
  | Tool_use_block string string "(string \<times> jval) list"
  | Other_block

record response =
  stop_reason :: string
  resp_content :: "block list"

datatype tool_result_block = Tool_result (tool_use_id: string) (result_content: string)

datatype message_content =
    Text_content string
  | Block_content "block list"
  | Result_content "tool_result_block list"

record message =
  role :: string
  msg_content :: message_content

record tool_use_log =
  log_name :: string
  log_input :: "(string \<times> jval) list"
  output_preview :: string

text \<open>
  The provider is an oracle: what it answers to the \<open>k\<close>-th request of a call of
  \<open>get_ai_response\<close>, given the transcript sent, a response or a failure.
\<close>

type_synonym provider = "nat \<Rightarrow> message list \<Rightarrow> py_error + response"

fun is_tool_use :: "block \<Rightarrow> bool" where
  "is_tool_use (Tool_use_block i n a) = True"
| "is_tool_use _ = False"

fun block_text :: "block \<Rightarrow> string" where
  "block_text (Text_block t) = t"
| "block_text _ = []"

text \<open>
  The \<^verbatim>\<open>for tool_call in tool_calls\<close> loop: each call is executed, logged with a
  preview of at most 500 characters of its result, and answered by a tool result that
  carries the call's identifier.
\<close>

fun run_tool_calls :: "(tool_result \<Rightarrow> string) \<Rightarrow> database \<Rightarrow> block list
    \<Rightarrow> tool_use_log list \<times> tool_result_block list \<Rightarrow> tool_use_log list \<times> tool_result_block list" where
  "run_tool_calls dumps db [] acc = acc"
| "run_tool_calls dumps db (Tool_use_block i n a # calls) (tools_used, tool_results) =
     (let tool_result = execute_tool dumps db n a
      in run_tool_calls dumps db calls
           (tools_used @ [\<lparr>log_name = n, log_input = a,
              output_preview = (if length tool_result > 500 then take 500 tool_result @ ''...''
                                else tool_result)\<rparr>],
            tool_results @ [Tool_result i tool_result]))"
| "run_tool_calls dumps db (b # calls) acc = run_tool_calls dumps db calls acc"

record loop_state =
  messages :: "message list"
  tools_used :: "tool_use_log list"
  requests :: nat

text \<open>
  One pass through the body of \<^verbatim>\<open>while True\<close>: the request to the provider, then
  either a round of tool calls (Inr: the state for the next pass) or the way out of the
  loop (Inl: the provider's failure raised, or the final text with the log returned).
\<close>

definition loop_body :: "(tool_result \<Rightarrow> string) \<Rightarrow> database \<Rightarrow> provider \<Rightarrow> loop_state
    \<Rightarrow> (py_error + string \<times> tool_use_log list) + loop_state" where
  "loop_body dumps db client s =
     (case client (requests s) (messages s) of
        Inl e \<Rightarrow> Inl (Inl e)
      | Inr response \<Rightarrow>
          if stop_reason response = ''tool_use'' then
            (let tool_calls = filter is_tool_use (resp_content response);
                 messages1 = messages s @ [\<lparr>role = ''assistant'', msg_content = Block_content (resp_content response)\<rparr>];
                 (tools_used1, tool_results) = run_tool_calls dumps db tool_calls (tools_used s, [])
             in Inr \<lparr>messages = messages1 @ [\<lparr>role = ''user'', msg_content = Result_content tool_results\<rparr>],
                     tools_used = tools_used1,
                     requests = Suc (requests s)\<rparr>)
          else Inl (Inr (concat (map block_text (resp_content response)), tools_used s)))"

partial_function (option) tool_loop :: "(tool_result \<Rightarrow> string) \<Rightarrow> database \<Rightarrow> provider \<Rightarrow> loop_state
    \<Rightarrow> (py_error + string \<times> tool_use_log list) option" where
  "tool_loop dumps db client s =
     (case loop_body dumps db client s of
        Inl out \<Rightarrow> Some out
      | Inr s' \<Rightarrow> tool_loop dumps db client s')"

definition initial_state :: "string \<Rightarrow> message list \<Rightarrow> loop_state" where
  "initial_state user_message chat_history =
     \<lparr>messages = map (\<lambda>msg. \<lparr>role = role msg, msg_content = msg_content msg\<rparr>) chat_history
                   @ [\<lparr>role = ''user'', msg_content = Text_content user_message\<rparr>],
      tools_used = [],
      requests = 0\<rparr>"

text \<open>
  \<open>get_ai_response\<close>: None when the loop never ends, otherwise the exception raised
  or the pair returned.
\<close>

definition get_ai_response :: "(tool_result \<Rightarrow> string) \<Rightarrow> database \<Rightarrow> provider \<Rightarrow> string \<Rightarrow> message list
    \<Rightarrow> (py_error + string \<times> tool_use_log list) option" where
  "get_ai_response dumps db client user_message chat_history =
     tool_loop dumps db client (initial_state user_message chat_history)"

text \<open>
  The state in which the \<open>n\<close>-th request of a run is made, when the run gets that
  far: \<open>n\<close> rounds of tool calls after \<open>s\<close>.
\<close>

fun state_at :: "(tool_result \<Rightarrow> string) \<Rightarrow> database \<Rightarrow> provider \<Rightarrow> nat \<Rightarrow> loop_state \<Rightarrow> loop_state option" where
  "state_at dumps db client 0 s = Some s"
| "state_at dumps db client (Suc n) s =
     (case loop_body dumps db client s of
        Inl out \<Rightarrow> None
      | Inr s' \<Rightarrow> state_at dumps db client n s')"

section \<open>Notions used to state the properties\<close>

text \<open>The identifiers of the tool-use blocks of a content, in order.\<close>

fun tool_use_ids :: "block list \<Rightarrow> string list" where
  "tool_use_ids [] = []"
| "tool_use_ids (Tool_use_block i n a # bs) = i # tool_use_ids bs"
| "tool_use_ids (b # bs) = tool_use_ids bs"

text \<open>
  The pairing of a stretch of transcript: it is a sequence of pairs, an assistant
  message made of blocks followed by a user message made of tool results, whose
  identifiers are those of the tool-use blocks before it, one for one and in order.
\<close>

fun paired :: "message list \<Rightarrow> bool" where
  "paired [] = True"
| "paired [m] = False"
| "paired (a # u # rest) =
     (role a = ''assistant'' \<and> role u = ''user'' \<and>
      (case msg_content a of
         Block_content bs \<Rightarrow>
           (case msg_content u of
              Result_content rs \<Rightarrow> map tool_use_id rs = tool_use_ids bs
            | _ \<Rightarrow> False)
       | _ \<Rightarrow> False) \<and>
      paired rest)"

text \<open>A provider that answers its requests with a given sequence of responses.\<close>

definition scripted :: "(nat \<Rightarrow> response) \<Rightarrow> provider" where
  "scripted rs = (\<lambda>k transcript. Inr (rs k))"

text \<open>The \<^verbatim>\<open>query_used\<close> entry of a result.\<close>

fun query_used :: "tool_result \<Rightarrow> string" where
  "query_used (Purchases d s q) = q"
| "query_used _ = []"



subsection \<open>A small store and a serializer, for concrete runs\<close>

definition example_dumps :: "tool_result \<Rightarrow> string" where
  "example_dumps r = (case r of Error_payload m \<Rightarrow> ''{\"error\": \"'' @ m @ ''\"}'' | _ \<Rightarrow> ''{}'')"

definition example_dates :: "string \<Rightarrow> date option" where
  "example_dates = map_of [(''2024-01-10'', 10), (''2024-01-20'', 20), (''2024-01-30'', 30)]"

definition example_db :: database where
  "example_db =
     \<lparr>tbl_purchase_prices =
        [\<lparr>p_doc_date = 20, p_doc_number = ''P-2'', p_contractor_name = ''Mill'',
          p_nomenclature_name = ''Flour'', p_quantity = 5, p_price = 50, p_sum_total = 250\<rparr>,
         \<lparr>p_doc_date = 10, p_doc_number = ''P-1'', p_contractor_name = ''Mill'',
          p_nomenclature_name = ''Flour'', p_quantity = 10, p_price = 40, p_sum_total = 400\<rparr>,
         \<lparr>p_doc_date = 30, p_doc_number = ''P-3'', p_contractor_name = ''Cane'',
          p_nomenclature_name = ''Sugar'', p_quantity = 2, p_price = 30, p_sum_total = 60\<rparr>],
      tbl_sales =
        [\<lparr>s_doc_type = doc_type_sale, s_doc_date = 10, s_doc_number = ''S-1'', s_client_name = ''Cafe'',
          s_nomenclature_name = ''Cake'', s_quantity = 2, s_price = 100, s_sum_with_vat = 200\<rparr>,
         \<lparr>s_doc_type = doc_type_sale, s_doc_date = 20, s_doc_number = ''S-2'', s_client_name = ''Shop'',
          s_nomenclature_name = ''Cake'', s_quantity = 5, s_price = 100, s_sum_with_vat = 500\<rparr>,
         \<lparr>s_doc_type = doc_type_sale, s_doc_date = 30, s_doc_number = ''S-3'', s_client_name = ''Cafe'',
          s_nomenclature_name = ''Pie'', s_quantity = 1, s_price = 150, s_sum_with_vat = 150\<rparr>,
         \<lparr>s_doc_type = doc_type_correction, s_doc_date = 30, s_doc_number = ''S-4'', s_client_name = ''Cafe'',
          s_nomenclature_name = ''Pie'', s_quantity = 1, s_price = 900, s_sum_with_vat = 900\<rparr>],
      tbl_nomenclature =
        [\<lparr>n_name = ''Cakes'', n_article = ''-'', n_code = ''G-1'', n_type_id = None, n_is_folder = True\<rparr>,
         \<lparr>n_name = ''Cake'', n_article = ''A-7'', n_code = ''N-1'', n_type_id = Some 1, n_is_folder = False\<rparr>],
      tbl_nomenclature_types = [(1, ''Goods'')],
      tbl_clients = [\<lparr>c_name = ''Cafe'', c_inn = ''7701''\<rparr>, \<lparr>c_name = ''Shop'', c_inn = ''7702''\<rparr>],
      available = True,
      date_in = example_dates\<rparr>"

text \<open>The parameters of the operation behind a capability name, from its signature.\<close>

definition parameters :: "string \<Rightarrow> string list" where
  "parameters tool_name =
     (if tool_name = ''search_purchases'' then [''query'', ''supplier'', ''date_from'', ''date_to'', ''limit'']
      else if tool_name = ''search_sales'' then [''query'', ''client'', ''doc_type'', ''date_from'', ''date_to'', ''limit'']
      else if tool_name = ''search_nomenclature'' then [''query'', ''limit'']
      else if tool_name = ''search_clients'' then [''query'', ''limit'']
      else if tool_name = ''get_price_dynamics'' then [''nomenclature'']
      else if tool_name = ''get_top_clients'' then [''date_from'', ''date_to'', ''limit'']
      else if tool_name = ''get_top_products'' then [''date_from'', ''date_to'', ''limit'']
      else [])"

subsection \<open>A scripted conversation, for concrete runs\<close>

definition example_script :: "nat \<Rightarrow> response" where
  "example_script k =
     (if k = 0 then
        \<lparr>stop_reason = ''tool_use'',
         resp_content = [Text_block ''Looking.'', Tool_use_block ''toolu_1'' ''get_price_dynamics'' [],
                         Tool_use_block ''toolu_2'' ''drop_tables'' []]\<rparr>
      else \<lparr>stop_reason = ''end_turn'', resp_content = [Text_block ''No '', Other_block, Text_block ''data.'']\<rparr>)"

definition example_after_round :: loop_state where
  "example_after_round =
     \<lparr>messages =
        [\<lparr>role = ''user'', msg_content = Text_content ''Flour?''\<rparr>,
         \<lparr>role = ''assistant'', msg_content = Block_content (resp_content (example_script 0))\<rparr>,
         \<lparr>role = ''user'', msg_content = Result_content
            [Tool_result ''toolu_1'' (example_dumps (Error_payload
               (''get_price_dynamics() missing 1 required positional argument: '' @ [CHR 0x27] @ ''nomenclature'' @ [CHR 0x27]))),
             Tool_result ''toolu_2'' (example_dumps (Error_payload (unknown_tool_prefix @ ''drop_tables'')))]\<rparr>],
      tools_used =
        [\<lparr>log_name = ''get_price_dynamics'', log_input = [],
          output_preview = example_dumps (Error_payload
               (''get_price_dynamics() missing 1 required positional argument: '' @ [CHR 0x27] @ ''nomenclature'' @ [CHR 0x27]))\<rparr>,
         \<lparr>log_name = ''drop_tables'', log_input = [],
          output_preview = example_dumps (Error_payload (unknown_tool_prefix @ ''drop_tables''))\<rparr>],
      requests = 1\<rparr>"

subsection \<open>Text filters and date bounds, as the properties speak of them\<close>


















section \<open>Properties\<close>

subsection \<open>The dispatcher\<close>

lemma unexpected_keyword_Some:
  assumes "k \<in> set (map fst tool_input)" "k \<notin> set names"
  shows "\<exists>m. unexpected_keyword fname names tool_input = Some (TypeError m)"
proof -
  from assms have "filter (\<lambda>k. k \<notin> set names) (map fst tool_input) \<noteq> []"
    by (auto simp: filter_empty_conv)
  then obtain x xs where "filter (\<lambda>k. k \<notin> set names) (map fst tool_input) = x # xs"
    by (cases "filter (\<lambda>k. k \<notin> set names) (map fst tool_input)") auto
  then show ?thesis by (simp add: unexpected_keyword_def)
qed

lemma dispatch_mismatch:
  assumes "tool_name \<in> set TOOLS" "tool_name \<noteq> ''get_summary_stats''"
    and "k \<in> set (map fst tool_input)" "k \<notin> set (parameters tool_name)"
  shows "\<exists>m. dispatch db tool_name tool_input = Inl (TypeError m)"
proof -
  obtain m where u: "unexpected_keyword tool_name (parameters tool_name) tool_input = Some (TypeError m)"
    using unexpected_keyword_Some [OF assms(3,4)] by auto
  have d: "tool_name = ''search_purchases'' \<or> tool_name = ''search_sales''
    \<or> tool_name = ''search_nomenclature'' \<or> tool_name = ''search_clients''
    \<or> tool_name = ''get_price_dynamics'' \<or> tool_name = ''get_top_clients''
    \<or> tool_name = ''get_top_products'' \<or> tool_name = ''get_summary_stats''"
    using assms(1) by (simp add: TOOLS_def)
  show ?thesis
    using d assms(2) u
    by (elim disjE; simp add: dispatch_def parameters_def call_search_purchases_def
        call_search_sales_def call_search_nomenclature_def call_search_clients_def
        call_get_price_dynamics_def call_get_top_clients_def call_get_top_products_def)
qed

lemma dispatch_unknown:
  "tool_name \<notin> set TOOLS \<Longrightarrow> dispatch db tool_name tool_input = Inr (Error_payload (unknown_tool_prefix @ tool_name))"
  by (simp add: dispatch_def TOOLS_def)

text \<open>
  C5. Whatever the capability name and the arguments, \<open>execute_tool\<close> returns a
  serialized payload: the exception handler turns every failure of the dispatch into an
  error payload carrying the exception's text, a name outside the eight registered
  capabilities gives the "unknown tool" error payload, and a keyword that the operation
  does not take (an argument mismatch) gives an error payload.
\<close>

theorem execute_tool_never_raises:
  "(\<exists>payload. execute_tool dumps db tool_name tool_input = dumps payload)
   \<and> (tool_name \<notin> set TOOLS \<longrightarrow>
        execute_tool dumps db tool_name tool_input = dumps (Error_payload (unknown_tool_prefix @ tool_name)))
   \<and> (\<forall>e. dispatch db tool_name tool_input = Inl e \<longrightarrow>
        execute_tool dumps db tool_name tool_input = dumps (Error_payload (exc_str e)))
   \<and> (tool_name \<in> set TOOLS \<and> tool_name \<noteq> ''get_summary_stats'' \<and>
        (\<exists>k \<in> set (map fst tool_input). k \<notin> set (parameters tool_name)) \<longrightarrow>
        (\<exists>m. execute_tool dumps db tool_name tool_input = dumps (Error_payload m)))"
proof (intro conjI impI allI)
  show "\<exists>payload. execute_tool dumps db tool_name tool_input = dumps payload"
    by (cases "dispatch db tool_name tool_input") (auto simp: execute_tool_def)
next
  assume "tool_name \<notin> set TOOLS"
  then show "execute_tool dumps db tool_name tool_input = dumps (Error_payload (unknown_tool_prefix @ tool_name))"
    by (simp add: execute_tool_def dispatch_unknown)
next
  fix e assume "dispatch db tool_name tool_input = Inl e"
  then show "execute_tool dumps db tool_name tool_input = dumps (Error_payload (exc_str e))"
    by (simp add: execute_tool_def)
next
  assume a: "tool_name \<in> set TOOLS \<and> tool_name \<noteq> ''get_summary_stats'' \<and>
        (\<exists>k \<in> set (map fst tool_input). k \<notin> set (parameters tool_name))"
  then obtain k where "k \<in> set (map fst tool_input)" "k \<notin> set (parameters tool_name)" by blast
  with a obtain m where "dispatch db tool_name tool_input = Inl (TypeError m)"
    using dispatch_mismatch by blast
  then show "\<exists>m. execute_tool dumps db tool_name tool_input = dumps (Error_payload m)"
    by (auto simp: execute_tool_def)
qed

theorem execute_tool_never_raises_witness:
  "''drop_tables'' \<notin> set TOOLS
   \<and> execute_tool example_dumps example_db ''drop_tables'' [] =
       example_dumps (Error_payload (unknown_tool_prefix @ ''drop_tables''))
   \<and> dispatch example_db ''get_price_dynamics'' [] =
       Inl (TypeError (''get_price_dynamics() missing 1 required positional argument: '' @ [CHR 0x27] @ ''nomenclature'' @ [CHR 0x27]))
   \<and> execute_tool example_dumps example_db ''get_price_dynamics'' [] =
       example_dumps (Error_payload (''get_price_dynamics() missing 1 required positional argument: '' @ [CHR 0x27] @ ''nomenclature'' @ [CHR 0x27]))
   \<and> ''get_top_clients'' \<in> set TOOLS
   \<and> ''top'' \<in> set (map fst [(''top'', JInt 3)]) \<and> ''top'' \<notin> set (parameters ''get_top_clients'')
   \<and> (\<exists>m. execute_tool example_dumps example_db ''get_top_clients'' [(''top'', JInt 3)] = example_dumps (Error_payload m))"
proof -
  have a: "''drop_tables'' \<notin> set TOOLS" by (simp add: TOOLS_def)
  have b: "dispatch example_db ''get_price_dynamics'' [] =
       Inl (TypeError (''get_price_dynamics() missing 1 required positional argument: '' @ [CHR 0x27] @ ''nomenclature'' @ [CHR 0x27]))"
    by (simp add: dispatch_def call_get_price_dynamics_def unexpected_keyword_def)
  have c: "''get_top_clients'' \<in> set TOOLS \<and> ''get_top_clients'' \<noteq> ''get_summary_stats'' \<and>
        (\<exists>k \<in> set (map fst [(''top'', JInt 3)]). k \<notin> set (parameters ''get_top_clients''))"
    by (simp add: TOOLS_def parameters_def)
  show ?thesis
    using a b c
      execute_tool_never_raises [of example_dumps example_db "''drop_tables''" "[]"]
      execute_tool_never_raises [of example_dumps example_db "''get_price_dynamics''" "[]"]
      execute_tool_never_raises [of example_dumps example_db "''get_top_clients''" "[(''top'', JInt 3)]"]
    by (simp add: parameters_def)
qed

subsection \<open>The orchestrator\<close>

lemma tool_use_ids_filter: "tool_use_ids (filter is_tool_use bs) = tool_use_ids bs"
  by (induction bs rule: tool_use_ids.induct) auto

lemma run_tool_calls_ids:
  "map tool_use_id (snd (run_tool_calls dumps db calls (tu, tr))) = map tool_use_id tr @ tool_use_ids calls"
  by (induction dumps db calls "(tu, tr)" arbitrary: tu tr rule: run_tool_calls.induct)
     (auto simp: Let_def)

lemma run_tool_calls_log:
  "length (fst (run_tool_calls dumps db calls (tu, tr))) = length tu + length (tool_use_ids calls)"
  by (induction dumps db calls "(tu, tr)" arbitrary: tu tr rule: run_tool_calls.induct)
     (auto simp: Let_def)

lemma loop_body_Inr:
  assumes "loop_body dumps db client s = Inr s'"
  obtains response rs where
    "client (requests s) (messages s) = Inr response"
    "stop_reason response = ''tool_use''"
    "messages s' = messages s @ [\<lparr>role = ''assistant'', msg_content = Block_content (resp_content response)\<rparr>,
                                  \<lparr>role = ''user'', msg_content = Result_content rs\<rparr>]"
    "map tool_use_id rs = tool_use_ids (resp_content response)"
    "requests s' = Suc (requests s)"
    "length (tools_used s') = length (tools_used s) + length (tool_use_ids (resp_content response))"
proof (cases "client (requests s) (messages s)")
  case (Inl e)
  with assms show ?thesis by (simp add: loop_body_def)
next
  case (Inr response)
  show ?thesis
  proof (cases "stop_reason response = ''tool_use''")
    case False
    with Inr assms show ?thesis by (simp add: loop_body_def)
  next
    case True
    obtain tu rs where r: "run_tool_calls dumps db (filter is_tool_use (resp_content response)) (tools_used s, []) = (tu, rs)"
      by (cases "run_tool_calls dumps db (filter is_tool_use (resp_content response)) (tools_used s, [])")
    have ids: "map tool_use_id rs = tool_use_ids (resp_content response)"
      using run_tool_calls_ids [of dumps db "filter is_tool_use (resp_content response)" "tools_used s" "[]"] r
      by (simp add: tool_use_ids_filter)
    have len: "length tu = length (tools_used s) + length (tool_use_ids (resp_content response))"
      using run_tool_calls_log [of dumps db "filter is_tool_use (resp_content response)" "tools_used s" "[]"] r
      by (simp add: tool_use_ids_filter)
    from assms Inr True r have "s' = \<lparr>messages = (messages s @ [\<lparr>role = ''assistant'', msg_content = Block_content (resp_content response)\<rparr>])
          @ [\<lparr>role = ''user'', msg_content = Result_content rs\<rparr>], tools_used = tu, requests = Suc (requests s)\<rparr>"
      by (simp add: loop_body_def Let_def)
    with Inr True ids len that [of response rs] show ?thesis by simp
  qed
qed

lemma paired_append: "paired xs \<Longrightarrow> paired ys \<Longrightarrow> paired (xs @ ys)"
  by (induction xs rule: paired.induct) auto

lemma state_at_transcript:
  "state_at dumps db client n s0 = Some s \<Longrightarrow>
     \<exists>appended. messages s = messages s0 @ appended \<and> paired appended \<and> length appended = 2 * n
       \<and> requests s = requests s0 + n"
proof (induction n arbitrary: s0)
  case 0
  then show ?case by simp
next
  case (Suc n)
  then obtain s1 where b: "loop_body dumps db client s0 = Inr s1" and r: "state_at dumps db client n s1 = Some s"
    by (auto split: sum.splits)
  from b obtain response rs where
    "client (requests s0) (messages s0) = Inr response"
    "stop_reason response = ''tool_use''"
    and m: "messages s1 = messages s0 @ [\<lparr>role = ''assistant'', msg_content = Block_content (resp_content response)\<rparr>,
                                     \<lparr>role = ''user'', msg_content = Result_content rs\<rparr>]"
    and i: "map tool_use_id rs = tool_use_ids (resp_content response)"
    and q: "requests s1 = Suc (requests s0)"
    and "length (tools_used s1) = length (tools_used s0) + length (tool_use_ids (resp_content response))"
    by (rule loop_body_Inr)
  from Suc.IH [OF r] obtain app where
    a: "messages s = messages s1 @ app" "paired app" "length app = 2 * n" "requests s = requests s1 + n" by auto
  let ?pair = "[\<lparr>role = ''assistant'', msg_content = Block_content (resp_content response)\<rparr>,
                \<lparr>role = ''user'', msg_content = Result_content rs\<rparr>]"
  have "paired ?pair" using i by simp
  then have "paired (?pair @ app)" using a(2) by (rule paired_append)
  moreover have "messages s = messages s0 @ (?pair @ app)" using a(1) m by simp
  moreover have "length (?pair @ app) = 2 * Suc n" using a(3) by simp
  moreover have "requests s = requests s0 + Suc n" using a(4) q by simp
  ultimately show ?case by blast
qed

lemma tool_loop_exit:
  "state_at dumps db client n s = Some s' \<Longrightarrow> loop_body dumps db client s' = Inl out \<Longrightarrow>
     tool_loop dumps db client s = Some out"
proof (induction n arbitrary: s)
  case 0
  then show ?case by (subst tool_loop.simps) simp
next
  case (Suc n)
  then obtain s1 where b: "loop_body dumps db client s = Inr s1" and r: "state_at dumps db client n s1 = Some s'"
    by (auto split: sum.splits)
  from Suc.IH [OF r Suc.prems(2)] b show ?case by (subst tool_loop.simps) simp
qed

lemma tool_loop_Some:
  assumes "tool_loop dumps db client s = Some out"
  shows "\<exists>n s'. state_at dumps db client n s = Some s' \<and> loop_body dumps db client s' = Inl out"
  using assms
proof (induction rule: tool_loop.raw_induct [rotated 1, consumes 1])
  case (1 loop dumps db client s out)
  show ?case
  proof (cases "loop_body dumps db client s")
    case (Inl o1)
    with 1(2) have "o1 = out" by simp
    with Inl have "state_at dumps db client 0 s = Some s \<and> loop_body dumps db client s = Inl out" by simp
    then show ?thesis by blast
  next
    case (Inr s1)
    with 1(2) have "loop dumps db client s1 = Some out" by simp
    from 1(1) [OF this] obtain n s' where "state_at dumps db client n s1 = Some s'" "loop_body dumps db client s' = Inl out"
      by blast
    with Inr have "state_at dumps db client (Suc n) s = Some s' \<and> loop_body dumps db client s' = Inl out" by simp
    then show ?thesis by blast
  qed
qed

lemma scripted_rounds:
  "(\<forall>i<n. stop_reason (rs (requests s + i)) = ''tool_use'') \<Longrightarrow>
     \<exists>s'. state_at dumps db (scripted rs) n s = Some s' \<and> requests s' = requests s + n
       \<and> length (tools_used s') =
           length (tools_used s) + (\<Sum>i<n. length (tool_use_ids (resp_content (rs (requests s + i)))))"
proof (induction n arbitrary: s)
  case 0
  then show ?case by simp
next
  case (Suc n)
  from Suc.prems have h0: "stop_reason (rs (requests s)) = ''tool_use''" by force
  then have "\<exists>s1. loop_body dumps db (scripted rs) s = Inr s1"
    by (simp add: loop_body_def scripted_def Let_def split: prod.split)
  then obtain s1 where b: "loop_body dumps db (scripted rs) s = Inr s1" ..
  from b obtain response rs1 where
    c: "scripted rs (requests s) (messages s) = Inr response"
    and "stop_reason response = ''tool_use''"
    and "messages s1 = messages s @ [\<lparr>role = ''assistant'', msg_content = Block_content (resp_content response)\<rparr>,
                                     \<lparr>role = ''user'', msg_content = Result_content rs1\<rparr>]"
    and "map tool_use_id rs1 = tool_use_ids (resp_content response)"
    and q: "requests s1 = Suc (requests s)"
    and l: "length (tools_used s1) = length (tools_used s) + length (tool_use_ids (resp_content response))"
    by (rule loop_body_Inr)
  from c have r: "response = rs (requests s)" by (simp add: scripted_def)
  have "\<forall>i<n. stop_reason (rs (requests s1 + i)) = ''tool_use''"
  proof (intro allI impI)
    fix i assume "i < n"
    then have "Suc i < Suc n" by simp
    with Suc.prems have "stop_reason (rs (requests s + Suc i)) = ''tool_use''" by blast
    then show "stop_reason (rs (requests s1 + i)) = ''tool_use''" using q by simp
  qed
  from Suc.IH [OF this] obtain s' where
    s': "state_at dumps db (scripted rs) n s1 = Some s'" "requests s' = requests s1 + n"
        "length (tools_used s') =
           length (tools_used s1) + (\<Sum>i<n. length (tool_use_ids (resp_content (rs (requests s1 + i)))))"
    by auto
  have "(\<Sum>i<Suc n. length (tool_use_ids (resp_content (rs (requests s + i))))) =
        length (tool_use_ids (resp_content (rs (requests s))))
        + (\<Sum>i<n. length (tool_use_ids (resp_content (rs (requests s1 + i)))))"
    using q by (simp add: sum.lessThan_Suc_shift del: sum.lessThan_Suc)
  with s' b q l r have "state_at dumps db (scripted rs) (Suc n) s = Some s' \<and> requests s' = requests s + Suc n
       \<and> length (tools_used s') =
           length (tools_used s) + (\<Sum>i<Suc n. length (tool_use_ids (resp_content (rs (requests s + i)))))"
    by simp
  then show ?case by blast
qed

lemma scripted_exit:
  "loop_body dumps db (scripted rs) s = Inl out \<longleftrightarrow>
     stop_reason (rs (requests s)) \<noteq> ''tool_use''
     \<and> out = Inr (concat (map block_text (resp_content (rs (requests s)))), tools_used s)"
  by (auto simp: loop_body_def scripted_def Let_def split: prod.splits)


text \<open>
  C1. A response with stop reason \<open>tool_use\<close> appends to the transcript the assistant
  message with the response's blocks and, right after it, one user message of tool
  results whose identifiers are those of the tool-use blocks of that response, one
  result per invocation and in order. Hence the transcript sent with the \<open>n\<close>-th
  request of a run is the initial transcript followed by \<open>n\<close> such pairs: the pairing
  is complete before every later request.
\<close>

theorem tool_results_paired:
  "(loop_body dumps db client s = Inr s' \<longrightarrow>
      (\<exists>response rs. client (requests s) (messages s) = Inr response \<and> stop_reason response = ''tool_use''
         \<and> messages s' = messages s @ [\<lparr>role = ''assistant'', msg_content = Block_content (resp_content response)\<rparr>,
                                        \<lparr>role = ''user'', msg_content = Result_content rs\<rparr>]
         \<and> map tool_use_id rs = tool_use_ids (resp_content response)))
   \<and> (state_at dumps db client n (initial_state user_message chat_history) = Some t \<longrightarrow>
      (\<exists>appended. messages t = messages (initial_state user_message chat_history) @ appended
         \<and> paired appended \<and> length appended = 2 * n))"
proof (intro conjI impI)
  assume b: "loop_body dumps db client s = Inr s'"
  from b obtain response rs where
    "client (requests s) (messages s) = Inr response"
    "stop_reason response = ''tool_use''"
    "messages s' = messages s @ [\<lparr>role = ''assistant'', msg_content = Block_content (resp_content response)\<rparr>,
                                     \<lparr>role = ''user'', msg_content = Result_content rs\<rparr>]"
    "map tool_use_id rs = tool_use_ids (resp_content response)"
    "requests s' = Suc (requests s)"
    "length (tools_used s') = length (tools_used s) + length (tool_use_ids (resp_content response))"
    by (rule loop_body_Inr)
  then show "\<exists>response rs. client (requests s) (messages s) = Inr response \<and> stop_reason response = ''tool_use''
         \<and> messages s' = messages s @ [\<lparr>role = ''assistant'', msg_content = Block_content (resp_content response)\<rparr>,
                                        \<lparr>role = ''user'', msg_content = Result_content rs\<rparr>]
         \<and> map tool_use_id rs = tool_use_ids (resp_content response)"
    by (intro exI conjI)
next
  assume "state_at dumps db client n (initial_state user_message chat_history) = Some t"
  from state_at_transcript [OF this]
  show "\<exists>appended. messages t = messages (initial_state user_message chat_history) @ appended
         \<and> paired appended \<and> length appended = 2 * n"
    by auto
qed

lemma example_round:
  "loop_body example_dumps example_db (scripted example_script) (initial_state ''Flour?'' []) =
     Inr example_after_round"
  by (simp add: loop_body_def scripted_def example_script_def initial_state_def Let_def
      execute_tool_def dispatch_def call_get_price_dynamics_def unexpected_keyword_def
      example_dumps_def unknown_tool_prefix_def example_after_round_def)

theorem tool_results_paired_witness:
  "state_at example_dumps example_db (scripted example_script) (Suc 0) (initial_state ''Flour?'' []) =
     Some example_after_round
   \<and> (\<exists>appended. messages example_after_round = messages (initial_state ''Flour?'' []) @ appended
        \<and> paired appended \<and> length appended = 2 * Suc 0)"
proof -
  have e: "state_at example_dumps example_db (scripted example_script) (Suc 0) (initial_state ''Flour?'' []) =
     Some example_after_round"
    by (simp add: example_round)
  have t: "\<exists>appended. messages example_after_round = messages (initial_state ''Flour?'' []) @ appended
        \<and> paired appended \<and> length appended = 2 * Suc 0"
    by (rule tool_results_paired [of example_dumps example_db "scripted example_script"
      "initial_state ''Flour?'' []" "initial_state ''Flour?'' []" "Suc 0" "''Flour?''" "[]" example_after_round,
      THEN conjunct2, THEN mp, OF e])
  show ?thesis by (rule conjI [OF e t])
qed

lemma initial_requests: "requests (initial_state user_message chat_history) = 0"
  and initial_tools_used: "tools_used (initial_state user_message chat_history) = []"
  by (simp_all add: initial_state_def)

lemma scripted_answer:
  assumes "\<forall>i<n. stop_reason (rs i) = ''tool_use''" and "stop_reason (rs n) \<noteq> ''tool_use''"
  shows "\<exists>s. state_at dumps db (scripted rs) n (initial_state user_message chat_history) = Some s
         \<and> requests s = n
         \<and> length (tools_used s) = (\<Sum>i<n. length (tool_use_ids (resp_content (rs i))))
         \<and> get_ai_response dumps db (scripted rs) user_message chat_history =
             Some (Inr (concat (map block_text (resp_content (rs n))), tools_used s))"
proof -
  let ?init = "initial_state user_message chat_history"
  from assms(1) have "\<forall>i<n. stop_reason (rs (requests ?init + i)) = ''tool_use''"
    by (simp add: initial_requests)
  from scripted_rounds [OF this, of dumps db] obtain s where
    s: "state_at dumps db (scripted rs) n ?init = Some s" "requests s = n"
       "length (tools_used s) = (\<Sum>i<n. length (tool_use_ids (resp_content (rs i))))"
    by (auto simp: initial_requests initial_tools_used)
  from assms(2) s(2) have "loop_body dumps db (scripted rs) s =
      Inl (Inr (concat (map block_text (resp_content (rs n))), tools_used s))"
    by (simp add: scripted_exit)
  from tool_loop_exit [OF s(1) this] s show ?thesis
    by (auto simp: get_ai_response_def)
qed

lemma scripted_forever:
  assumes "\<forall>k. stop_reason (rs k) = ''tool_use''"
  shows "get_ai_response dumps db (scripted rs) user_message chat_history = None"
proof (rule ccontr)
  assume "get_ai_response dumps db (scripted rs) user_message chat_history \<noteq> None"
  then obtain out where "tool_loop dumps db (scripted rs) (initial_state user_message chat_history) = Some out"
    by (auto simp: get_ai_response_def)
  from tool_loop_Some [OF this] obtain n s' where
    "loop_body dumps db (scripted rs) s' = Inl out" by auto
  then have "stop_reason (rs (requests s')) \<noteq> ''tool_use''" by (simp add: scripted_exit)
  with assms show False by simp
qed

text \<open>
  C3. The loop has no bound on its rounds. For every sequence \<open>rs\<close> of responses that
  the provider gives: the loop never returns exactly when every response has stop reason
  \<open>tool_use\<close>; when the first response with another stop reason is the \<open>n\<close>-th, the
  loop makes exactly \<open>n\<close> rounds of tool calls (one per \<open>tool_use\<close> response, every
  invocation of those rounds logged) and returns that response's text; and for each
  \<open>n\<close> there is a sequence on which it makes \<open>n\<close> rounds and returns.
\<close>

theorem tool_loop_has_no_cap:
  "(get_ai_response dumps db (scripted rs) user_message chat_history = None
      \<longleftrightarrow> (\<forall>k. stop_reason (rs k) = ''tool_use''))
   \<and> ((\<forall>i<n. stop_reason (rs i) = ''tool_use'') \<and> stop_reason (rs n) \<noteq> ''tool_use'' \<longrightarrow>
        (\<exists>s. state_at dumps db (scripted rs) n (initial_state user_message chat_history) = Some s
           \<and> requests s = n
           \<and> length (tools_used s) = (\<Sum>i<n. length (tool_use_ids (resp_content (rs i))))
           \<and> get_ai_response dumps db (scripted rs) user_message chat_history =
               Some (Inr (concat (map block_text (resp_content (rs n))), tools_used s))))
   \<and> (\<exists>rs'. (\<exists>s. state_at dumps db (scripted rs') n (initial_state user_message chat_history) = Some s)
         \<and> get_ai_response dumps db (scripted rs') user_message chat_history \<noteq> None)"
proof (intro conjI impI)
  show "get_ai_response dumps db (scripted rs) user_message chat_history = None
      \<longleftrightarrow> (\<forall>k. stop_reason (rs k) = ''tool_use'')"
  proof
    assume none: "get_ai_response dumps db (scripted rs) user_message chat_history = None"
    show "\<forall>k. stop_reason (rs k) = ''tool_use''"
    proof (rule ccontr)
      assume "\<not> (\<forall>k. stop_reason (rs k) = ''tool_use'')"
      then have ex: "\<exists>k. stop_reason (rs k) \<noteq> ''tool_use''" by simp
      define m where "m = (LEAST k. stop_reason (rs k) \<noteq> ''tool_use'')"
      from ex have stop: "stop_reason (rs m) \<noteq> ''tool_use''"
        unfolding m_def by (rule LeastI_ex)
      have before: "\<forall>i<m. stop_reason (rs i) = ''tool_use''"
      proof (intro allI impI)
        fix i assume "i < m"
        then have "\<not> stop_reason (rs i) \<noteq> ''tool_use''"
          unfolding m_def by (rule not_less_Least)
        then show "stop_reason (rs i) = ''tool_use''" by simp
      qed
      from scripted_answer [OF before stop, of dumps db user_message chat_history] none
      show False by (elim exE conjE) simp
    qed
  next
    assume "\<forall>k. stop_reason (rs k) = ''tool_use''"
    then show "get_ai_response dumps db (scripted rs) user_message chat_history = None"
      by (rule scripted_forever)
  qed
next
  assume "(\<forall>i<n. stop_reason (rs i) = ''tool_use'') \<and> stop_reason (rs n) \<noteq> ''tool_use''"
  then show "\<exists>s. state_at dumps db (scripted rs) n (initial_state user_message chat_history) = Some s
           \<and> requests s = n
           \<and> length (tools_used s) = (\<Sum>i<n. length (tool_use_ids (resp_content (rs i))))
           \<and> get_ai_response dumps db (scripted rs) user_message chat_history =
               Some (Inr (concat (map block_text (resp_content (rs n))), tools_used s))"
    by (elim conjE) (rule scripted_answer)
next
  define rs0 where "rs0 = (\<lambda>k. \<lparr>stop_reason = (if k < n then ''tool_use'' else ''end_turn''), resp_content = []\<rparr>)"
  have "\<forall>i<n. stop_reason (rs0 i) = ''tool_use''" by (simp add: rs0_def)
  moreover have "stop_reason (rs0 n) \<noteq> ''tool_use''" by (simp add: rs0_def)
  ultimately have "\<exists>s. state_at dumps db (scripted rs0) n (initial_state user_message chat_history) = Some s
         \<and> requests s = n
         \<and> length (tools_used s) = (\<Sum>i<n. length (tool_use_ids (resp_content (rs0 i))))
         \<and> get_ai_response dumps db (scripted rs0) user_message chat_history =
             Some (Inr (concat (map block_text (resp_content (rs0 n))), tools_used s))"
    by (rule scripted_answer)
  then have "(\<exists>s. state_at dumps db (scripted rs0) n (initial_state user_message chat_history) = Some s)
         \<and> get_ai_response dumps db (scripted rs0) user_message chat_history \<noteq> None"
    by (elim exE conjE) (simp del: state_at.simps)
  then show "\<exists>rs'. (\<exists>s. state_at dumps db (scripted rs') n (initial_state user_message chat_history) = Some s)
         \<and> get_ai_response dumps db (scripted rs') user_message chat_history \<noteq> None"
    by (rule exI [of _ rs0])
qed

theorem tool_loop_has_no_cap_witness:
  "stop_reason (example_script 0) = ''tool_use'' \<and> stop_reason (example_script 1) \<noteq> ''tool_use''
   \<and> (\<exists>s. state_at example_dumps example_db (scripted example_script) 1 (initial_state ''Flour?'' []) = Some s
        \<and> requests s = 1
        \<and> length (tools_used s) = 2
        \<and> get_ai_response example_dumps example_db (scripted example_script) ''Flour?'' [] =
            Some (Inr (''No data.'', tools_used s)))"
proof -
  have a0: "stop_reason (example_script 0) = ''tool_use''" by (simp add: example_script_def)
  have a1: "stop_reason (example_script 1) \<noteq> ''tool_use''" by (simp add: example_script_def)
  from a0 have a: "(\<forall>i<1. stop_reason (example_script i) = ''tool_use'')" by simp
  have b: "(\<Sum>i<1. length (tool_use_ids (resp_content (example_script i)))) = 2"
    by (simp add: example_script_def)
  have c: "concat (map block_text (resp_content (example_script 1))) = ''No data.''"
    by (simp add: example_script_def)
  have "\<exists>s. state_at example_dumps example_db (scripted example_script) 1 (initial_state ''Flour?'' []) = Some s
        \<and> requests s = 1
        \<and> length (tools_used s) = (\<Sum>i<1. length (tool_use_ids (resp_content (example_script i))))
        \<and> get_ai_response example_dumps example_db (scripted example_script) ''Flour?'' [] =
            Some (Inr (concat (map block_text (resp_content (example_script 1))), tools_used s))"
    by (rule tool_loop_has_no_cap [of example_dumps example_db example_script "''Flour?''" "[]" 1,
          THEN conjunct2, THEN conjunct1, THEN mp, OF conjI [OF a a1]])
  then have "\<exists>s. state_at example_dumps example_db (scripted example_script) 1 (initial_state ''Flour?'' []) = Some s
        \<and> requests s = 1
        \<and> length (tools_used s) = 2
        \<and> get_ai_response example_dumps example_db (scripted example_script) ''Flour?'' [] =
            Some (Inr (''No data.'', tools_used s))"
    unfolding b c .
  with a0 a1 show ?thesis by (intro conjI)
qed

subsection \<open>Query texts and store failures\<close>

lemma str_int_5_7: "str_int 5 \<noteq> str_int 7"
  by (simp add: str_int_def digit_char_def)

text \<open>
  C2. The query text is not independent of the argument values: the result-count limit
  is written into the text itself. Two calls of search_purchases that differ only in the
  value of \<open>limit\<close> get different query texts, the same holds for the query of
  search_sales under any conditions, and a limit that is a text reaches the query
  verbatim.
\<close>

theorem limit_is_part_of_query_text:
  "query_used (search_purchases db JNull JNull JNull JNull (JInt 5))
     \<noteq> query_used (search_purchases db JNull JNull JNull JNull (JInt 7))
   \<and> sql_text (sales_query conditions (JInt 5)) \<noteq> sql_text (sales_query conditions (JInt 7))
   \<and> sql_text (purchases_query [Always_true] (JStr ''1; DROP TABLE sales'')) =
       concat
        [''\<newline>'',
         ''        SELECT doc_date, doc_number, contractor_name, nomenclature_name,\<newline>'',
         ''               quantity, price, sum_total\<newline>'',
         ''        FROM purchase_prices\<newline>'',
         ''        WHERE 1=1\<newline>'',
         ''        ORDER BY doc_date DESC\<newline>'',
         ''        LIMIT 1; DROP TABLE sales\<newline>'',
         ''    '']"
proof (intro conjI)
  show "query_used (search_purchases db JNull JNull JNull JNull (JInt 5))
     \<noteq> query_used (search_purchases db JNull JNull JNull JNull (JInt 7))"
    using str_int_5_7
    by (simp add: search_purchases_def add_filter_def purchases_query_def Let_def)
  show "sql_text (sales_query conditions (JInt 5)) \<noteq> sql_text (sales_query conditions (JInt 7))"
    using str_int_5_7 by (simp add: sales_query_def)
  show "sql_text (purchases_query [Always_true] (JStr ''1; DROP TABLE sales'')) =
       concat
        [''\<newline>'',
         ''        SELECT doc_date, doc_number, contractor_name, nomenclature_name,\<newline>'',
         ''               quantity, price, sum_total\<newline>'',
         ''        FROM purchase_prices\<newline>'',
         ''        WHERE 1=1\<newline>'',
         ''        ORDER BY doc_date DESC\<newline>'',
         ''        LIMIT 1; DROP TABLE sales\<newline>'',
         ''    '']"
    by (simp add: purchases_query_def where_text_def)
qed

lemma unavailable_query:
  "\<not> available db \<Longrightarrow> select_rows db cols conditions params rows = Inl Connection_failed"
  by (simp add: select_rows_def where_clause_def)

text \<open>
  C4. When the store cannot be reached, \<open>execute_query\<close> catches the failure, records
  it and returns an empty frame; \<open>get_summary_stats\<close> then reads the first row of that
  empty frame and raises IndexError instead of returning an empty result. The exception
  leaves the data-access layer and is only caught by \<open>execute_tool\<close>.
\<close>

theorem summary_raises_on_store_failure:
  "get_summary_stats (db\<lparr>available := False\<rparr>) =
     Inl (IndexError ''single positional indexer is out-of-bounds'')
   \<and> execute_tool dumps (db\<lparr>available := False\<rparr>) ''get_summary_stats'' tool_input =
     dumps (Error_payload ''single positional indexer is out-of-bounds'')
   \<and> fst (execute_query (db\<lparr>available := False\<rparr>) summary_purchases_query []) = []
   \<and> snd (execute_query (db\<lparr>available := False\<rparr>) summary_purchases_query []) = [Connection_failed]"
proof -
  have q: "execute_query (db\<lparr>available := False\<rparr>) summary_purchases_query [] = ([], [Connection_failed])"
    by (simp add: execute_query_def summary_purchases_query_def map_rows_def unavailable_query)
  have g: "get_summary_stats (db\<lparr>available := False\<rparr>) =
     Inl (IndexError ''single positional indexer is out-of-bounds'')"
    by (simp add: get_summary_stats_def q iloc0_def Let_def)
  have "dispatch (db\<lparr>available := False\<rparr>) ''get_summary_stats'' tool_input =
     Inl (IndexError ''single positional indexer is out-of-bounds'')"
    by (simp add: dispatch_def g)
  then have "execute_tool dumps (db\<lparr>available := False\<rparr>) ''get_summary_stats'' tool_input =
     dumps (Error_payload ''single positional indexer is out-of-bounds'')"
    by (simp add: execute_tool_def)
  with g q show ?thesis by simp
qed

subsection \<open>Patterns, limits and WHERE clauses\<close>
















subsection \<open>What the operations select\<close>


















subsection \<open>Leaderboards\<close>

lemma set_order_desc [simp]: "set (order_desc key rows) = set rows"
  by (simp add: order_desc_def)

lemma length_order_desc [simp]: "length (order_desc key rows) = length rows"
  by (simp add: order_desc_def)

lemma sorted_order_desc: "sorted_wrt (\<lambda>a b. key b \<le> key a) (order_desc key rows)"
proof -
  have "sorted (map key (sort_key key rows))" by simp
  then have "sorted_wrt (\<lambda>a b. key a \<le> key b) (sort_key key rows)"
    by (simp add: sorted_map)
  then show ?thesis by (simp add: order_desc_def sorted_wrt_rev)
qed


lemma sorted_take_order_desc:
  "sorted_wrt (\<lambda>a b. key b \<le> key a) (take n (order_desc key rows))"
  using sorted_order_desc by (rule sorted_wrt_take)












lemma sorted_limit_rows:
  "limit_rows t (map_rows (order_desc key) res) = Inr rows \<Longrightarrow>
     sorted_wrt (\<lambda>a b. key b \<le> key a) rows"
  by (auto simp: limit_rows_def map_rows_def sorted_take_order_desc split: sum.splits option.splits)


















subsection \<open>Filters\<close>









lemma text_or_absent [simp]: "py_truthy JNull \<Longrightarrow> \<exists>x. JNull = JStr x"
  "py_truthy (JStr t) \<Longrightarrow> \<exists>x. JStr t = JStr x"
  by simp_all











subsection \<open>Limits\<close>








lemma length_order_asc [simp]: "length (order_asc key rows) = length rows"
  by (simp add: order_asc_def)







subsection \<open>Price dynamics\<close>






lemma set_order_asc [simp]: "set (order_asc key rows) = set rows"
  by (simp add: order_asc_def)

lemma order_asc_empty [simp]: "order_asc key rows = [] \<longleftrightarrow> rows = []"
  by (metis length_0_conv length_order_asc)

lemma sorted_hd_least:
  assumes "sorted (map f xs)" "x \<in> set xs"
  shows "f (hd xs) \<le> f x"
proof (cases xs)
  case Nil
  with assms(2) show ?thesis by simp
next
  case (Cons y ys)
  with assms show ?thesis by auto
qed

lemma sorted_last_greatest:
  assumes "sorted (map f xs)" "x \<in> set xs"
  shows "f x \<le> f (last xs)"
proof -
  from assms(2) have ne: "xs \<noteq> []" by auto
  then have "xs = butlast xs @ [last xs]" by simp
  then have "sorted (map f (butlast xs @ [last xs]))" using assms(1) by simp
  then have b: "\<forall>y \<in> set (butlast xs). f y \<le> f (last xs)"
    by (simp add: sorted_append)
  from assms(2) ne have "x \<in> set (butlast xs) \<or> x = last xs"
    by (metis append_butlast_last_id in_set_conv_decomp insert_iff list.set(2) rotate1.simps(2) set_rotate1)
  with b show ?thesis by auto
qed











end
